theory Spec2Isabelle
  imports Main "HOL-Library.AList" "HOL-Library.Sublist"
begin

section \<open>Values read by \<open>json.load\<close>\<close>

text \<open>
  Both collectors read every parsed file with
  \<^verbatim>\<open>json.load(f, object_pairs_hook=OrderedDict)\<close>. The values that call can return are
  \<open>None\<close>, booleans, integers, floats, strings, lists and \<open>OrderedDict\<close>s. An
  \<open>OrderedDict\<close> is kept as the list of its items in insertion order. A float is never
  computed with by the collectors; it is carried as the text Python prints for it.
  A \<open>string\<close> is the sequence of the characters of the Python \<open>str\<close>.
\<close>

datatype json =
    JNull
  | JBool bool
  | JInt int
  | JFloat string
  | JStr string
  | JList "json list"
  | JObj "(string \<times> json) list"

text \<open>
  The exceptions the collectors can raise on such values, and those that opening and
  writing a file can raise.
\<close>

datatype error = KeyError | TypeError | AttributeError | OSError | ValueError

text \<open>Sequencing: the first exception raised is the outcome of the whole expression.\<close>

definition rbind :: "error + 'a \<Rightarrow> ('a \<Rightarrow> error + 'b) \<Rightarrow> error + 'b" where
  "rbind m f = (case m of Inl e \<Rightarrow> Inl e | Inr x \<Rightarrow> f x)"

text \<open>
  A list comprehension \<^verbatim>\<open>[f(x) for x in xs]\<close>: the elements are evaluated from left to
  right and the first exception ends the comprehension.
\<close>

fun list_comp :: "('a \<Rightarrow> error + 'b) \<Rightarrow> 'a list \<Rightarrow> error + 'b list" where
  "list_comp f [] = Inr []"
| "list_comp f (x # xs) =
     (case f x of
        Inl e \<Rightarrow> Inl e
      | Inr y \<Rightarrow> (case list_comp f xs of Inl e \<Rightarrow> Inl e | Inr ys \<Rightarrow> Inr (y # ys)))"

text \<open>
  \<^verbatim>\<open>x.get(k, default)\<close>: only an \<open>OrderedDict\<close> has the method; on every other value
  the attribute lookup raises \<open>AttributeError\<close>. \<^verbatim>\<open>x.get(k)\<close> is \<open>py_get x k JNull\<close>.
\<close>

definition py_get :: "json \<Rightarrow> string \<Rightarrow> json \<Rightarrow> error + json" where
  "py_get x k dflt =
     (case x of
        JObj kvs \<Rightarrow> Inr (case map_of kvs k of None \<Rightarrow> dflt | Some v \<Rightarrow> v)
      | _ \<Rightarrow> Inl AttributeError)"

text \<open>
  \<^verbatim>\<open>x[k]\<close> with a string key: \<open>KeyError\<close> on an \<open>OrderedDict\<close> without the key,
  \<open>TypeError\<close> on every value that is not an \<open>OrderedDict\<close>.
\<close>

definition py_getitem :: "json \<Rightarrow> string \<Rightarrow> error + json" where
  "py_getitem x k =
     (case x of
        JObj kvs \<Rightarrow> (case map_of kvs k of None \<Rightarrow> Inl KeyError | Some v \<Rightarrow> Inr v)
      | _ \<Rightarrow> Inl TypeError)"

text \<open>
  \<^verbatim>\<open>for x in v\<close>: a list yields its elements, a string its characters as one-character
  strings, an \<open>OrderedDict\<close> its keys; the other values are not iterable.
\<close>

definition py_iter :: "json \<Rightarrow> error + json list" where
  "py_iter v =
     (case v of
        JList xs \<Rightarrow> Inr xs
      | JStr s \<Rightarrow> Inr (map (\<lambda>c. JStr [c]) s)
      | JObj kvs \<Rightarrow> Inr (map (\<lambda>kv. JStr (fst kv)) kvs)
      | _ \<Rightarrow> Inl TypeError)"

text \<open>
  What an f-string field \<^verbatim>\<open>{v}\<close> prints. For a list or an \<open>OrderedDict\<close> it is the
  interpreter's \<open>repr\<close>, which is not code of this repository and differs between Python
  versions: it is the parameter \<open>crepr\<close>.
\<close>

fun digits :: "nat \<Rightarrow> string" where
  "digits n =
     (if n < 10 then [char_of (48 + n)] else digits (n div 10) @ [char_of (48 + n mod 10)])"

declare digits.simps [simp del]

definition py_format :: "(json \<Rightarrow> string) \<Rightarrow> json \<Rightarrow> string" where
  "py_format crepr v =
     (case v of
        JStr s \<Rightarrow> s
      | JNull \<Rightarrow> ''None''
      | JBool b \<Rightarrow> (if b then ''True'' else ''False'')
      | JInt i \<Rightarrow> (if i < 0 then CHR ''-'' # digits (nat (- i)) else digits (nat i))
      | JFloat r \<Rightarrow> r
      | _ \<Rightarrow> crepr v)"

section \<open>Dictionaries: normalising one entry\<close>

text \<open>
  \<^verbatim>\<open>OrderedDict((k, v) for k, v in data.items() if v not in [None, "", []])\<close>.
  Python's \<open>in\<close> compares with \<open>==\<close>; among the values \<open>json.load\<close> returns, only
  \<open>None\<close> equals \<open>None\<close>, only the empty string equals \<open>""\<close> and only the empty
  list equals \<open>[]\<close>.
\<close>

definition dictionaries_filter_empty_fields :: "(string \<times> json) list \<Rightarrow> (string \<times> json) list" where
  "dictionaries_filter_empty_fields data =
     filter (\<lambda>(k, v). v \<notin> set [JNull, JStr '''', JList []]) data"

text \<open>
  The ten pairs are evaluated in order. \<^verbatim>\<open>meta["source_title"]\<close> is an argument of
  \<open>get\<close>, so it is evaluated before \<open>get\<close> is called, whether or not the definition has
  the key.
\<close>

definition ensure_ordered_definition :: "json \<Rightarrow> json \<Rightarrow> error + (string \<times> json) list" where
  "ensure_ordered_definition d meta =
     rbind (py_get d ''description'' JNull) (\<lambda>description.
     rbind (py_get d ''pos'' JNull) (\<lambda>pos.
     rbind (py_get d ''origin'' JNull) (\<lambda>origin.
     rbind (py_get d ''usage_note'' JNull) (\<lambda>usage_note.
     rbind (py_get d ''synonyms'' (JList [])) (\<lambda>synonyms.
     rbind (py_get d ''antonyms'' (JList [])) (\<lambda>antonyms.
     rbind (py_get d ''inflections'' (JList [])) (\<lambda>inflections.
     rbind (py_get d ''examples'' (JList [])) (\<lambda>examples.
     rbind (py_getitem meta ''source_title'') (\<lambda>meta_source_title.
     rbind (py_get d ''source_title'' meta_source_title) (\<lambda>source_title.
     rbind (py_get meta ''source_link'' JNull) (\<lambda>meta_source_link.
     rbind (py_get d ''source_link'' meta_source_link) (\<lambda>source_link.
     Inr (dictionaries_filter_empty_fields
       [(''description'', description),
        (''pos'', pos),
        (''origin'', origin),
        (''usage_note'', usage_note),
        (''synonyms'', synonyms),
        (''antonyms'', antonyms),
        (''inflections'', inflections),
        (''examples'', examples),
        (''source_title'', source_title),
        (''source_link'', source_link)])))))))))))))"

text \<open>
  The first statement of \<open>ensure_ordered_entry\<close>:
  \<^verbatim>\<open>[ensure_ordered_definition(d, meta) for d in entry.get("definitions", [])]\<close>.
\<close>

definition entry_definitions :: "json \<Rightarrow> json \<Rightarrow> error + (string \<times> json) list list" where
  "entry_definitions entry meta =
     rbind (py_get entry ''definitions'' (JList [])) (\<lambda>raw_definitions.
     rbind (py_iter raw_definitions) (\<lambda>ds.
     list_comp (\<lambda>d. ensure_ordered_definition d meta) ds))"

definition dictionaries_ensure_ordered_entry :: "json \<Rightarrow> json \<Rightarrow> error + (string \<times> json) list" where
  "dictionaries_ensure_ordered_entry entry meta =
     rbind (entry_definitions entry meta) (\<lambda>definitions.
     rbind (py_get entry ''word'' JNull) (\<lambda>word.
     Inr (dictionaries_filter_empty_fields
       [(''word'', word),
        (''definitions'', JList (map JObj definitions))])))"

section \<open>Phrasebooks: normalising one entry\<close>

definition phrasebooks_filter_empty_fields :: "(string \<times> json) list \<Rightarrow> (string \<times> json) list" where
  "phrasebooks_filter_empty_fields data =
     filter (\<lambda>(k, v). v \<notin> set [JNull, JStr '''', JList []]) data"

definition ensure_ordered_translation :: "json \<Rightarrow> json \<Rightarrow> error + (string \<times> json) list" where
  "ensure_ordered_translation t meta =
     rbind (py_get t ''content'' JNull) (\<lambda>content.
     rbind (py_get t ''examples'' JNull) (\<lambda>examples.
     rbind (py_get meta ''source_title'' JNull) (\<lambda>meta_source_title.
     rbind (py_get t ''source_title'' meta_source_title) (\<lambda>source_title.
     rbind (py_get meta ''source_link'' JNull) (\<lambda>meta_source_link.
     rbind (py_get t ''source_link'' meta_source_link) (\<lambda>source_link.
     Inr (phrasebooks_filter_empty_fields
       [(''content'', content),
        (''examples'', examples),
        (''source_title'', source_title),
        (''source_link'', source_link)])))))))"

text \<open>
  \<^verbatim>\<open>[ensure_ordered_translation(t, meta) for t in entry.get("translations")]\<close>:
  the \<open>get\<close> has no default, so on an entry without the key it is \<open>None\<close>, and
  iterating \<open>None\<close> raises \<open>TypeError\<close>.
\<close>

definition entry_translations :: "json \<Rightarrow> json \<Rightarrow> error + (string \<times> json) list list" where
  "entry_translations entry meta =
     rbind (py_get entry ''translations'' JNull) (\<lambda>raw_translations.
     rbind (py_iter raw_translations) (\<lambda>ts.
     list_comp (\<lambda>t. ensure_ordered_translation t meta) ts))"

definition phrasebooks_ensure_ordered_entry :: "json \<Rightarrow> json \<Rightarrow> error + (string \<times> json) list" where
  "phrasebooks_ensure_ordered_entry entry meta =
     rbind (entry_translations entry meta) (\<lambda>translations.
     rbind (py_get entry ''phrase'' JNull) (\<lambda>phrase.
     rbind (py_get entry ''categories'' JNull) (\<lambda>categories.
     rbind (py_get entry ''usage_note'' JNull) (\<lambda>usage_note.
     Inr (phrasebooks_filter_empty_fields
       [(''phrase'', phrase),
        (''categories'', categories),
        (''usage_note'', usage_note),
        (''translations'', JList (map JObj translations))])))))"

section \<open>Aggregation\<close>

text \<open>
  \<open>merged_data\<close> is a \<open>defaultdict\<close> from file name to a two-key dict
  \<^verbatim>\<open>{"meta": OrderedDict(), "entries": []}\<close>. A Python dict keeps its keys in insertion
  order, so it is an association list with distinct keys; a group is a record of its two
  values.
\<close>

record group =
  group_meta :: "(string \<times> json) list"
  group_entries :: "json list"

type_synonym merged = "(string \<times> group) list"

text \<open>Reading \<^verbatim>\<open>merged_data[filename]\<close> inserts the default value under a new key.\<close>

definition getitem_default :: "merged \<Rightarrow> string \<Rightarrow> merged" where
  "getitem_default merged_data filename =
     (case map_of merged_data filename of
        None \<Rightarrow> merged_data @ [(filename, \<lparr>group_meta = [], group_entries = []\<rparr>)]
      | Some g \<Rightarrow> merged_data)"

definition set_meta :: "merged \<Rightarrow> string \<Rightarrow> (string \<times> json) list \<Rightarrow> merged" where
  "set_meta merged_data filename m =
     AList.map_entry filename (\<lambda>g. g\<lparr>group_meta := m\<rparr>) (getitem_default merged_data filename)"

definition extend_entries :: "merged \<Rightarrow> string \<Rightarrow> json list \<Rightarrow> merged" where
  "extend_entries merged_data filename es =
     AList.map_entry filename (\<lambda>g. g\<lparr>group_entries := group_entries g @ es\<rparr>)
       (getitem_default merged_data filename)"

text \<open>
  The body of the loop of \<open>collect_dictionaries\<close> for one file, where \<open>data\<close> is the
  document \<open>json.load\<close> returned for it. \<open>dictionaries_batch\<close> is what the body
  computes from the file: the file name of the group, the two-key meta and the normalized
  entries; \<open>dictionaries_merge_file\<close> stores them in \<open>merged_data\<close>. No exception is
  caught: whatever a step raises leaves the loop and the function, and \<open>merged_data\<close>,
  a local variable, is lost with it.
\<close>

definition dictionaries_file_name :: "(json \<Rightarrow> string) \<Rightarrow> json \<Rightarrow> json \<Rightarrow> string" where
  "dictionaries_file_name crepr lang definition_lang =
     ''dictionary_'' @ py_format crepr lang @ ''_'' @ py_format crepr definition_lang @ ''.json''"

definition dictionaries_batch ::
    "(json \<Rightarrow> string) \<Rightarrow> json \<Rightarrow> error + string \<times> (string \<times> json) list \<times> json list" where
  "dictionaries_batch crepr data =
     rbind (py_getitem data ''meta'') (\<lambda>meta.
     rbind (py_getitem data ''entries'') (\<lambda>entries.
     rbind (py_getitem meta ''lang'') (\<lambda>lang.
     rbind (py_getitem meta ''definition_lang'') (\<lambda>definition_lang.
     rbind (py_iter entries) (\<lambda>es.
     rbind (list_comp (\<lambda>entry. dictionaries_ensure_ordered_entry entry meta) es) (\<lambda>normalized.
     Inr (dictionaries_file_name crepr lang definition_lang,
          [(''lang'', lang), (''definition_lang'', definition_lang)],
          map JObj normalized)))))))"

definition dictionaries_merge_file :: "(json \<Rightarrow> string) \<Rightarrow> merged \<Rightarrow> json \<Rightarrow> error + merged" where
  "dictionaries_merge_file crepr merged_data data =
     rbind (dictionaries_batch crepr data) (\<lambda>(filename, m, es).
     Inr (extend_entries (set_meta merged_data filename m) filename es))"

fun dictionaries_loop :: "(json \<Rightarrow> string) \<Rightarrow> merged \<Rightarrow> json list \<Rightarrow> error + merged" where
  "dictionaries_loop crepr merged_data [] = Inr merged_data"
| "dictionaries_loop crepr merged_data (data # files) =
     (case dictionaries_merge_file crepr merged_data data of
        Inl e \<Rightarrow> Inl e
      | Inr merged_data' \<Rightarrow> dictionaries_loop crepr merged_data' files)"

text \<open>
  \<open>parsed\<close> is the sequence of documents loaded from the files of \<open>PARSED_DIRS\<close>, in the
  order the glob yields them.
\<close>

definition collect_dictionaries :: "(json \<Rightarrow> string) \<Rightarrow> json list \<Rightarrow> error + merged" where
  "collect_dictionaries crepr parsed = dictionaries_loop crepr [] parsed"

definition phrasebooks_file_name :: "(json \<Rightarrow> string) \<Rightarrow> json \<Rightarrow> json \<Rightarrow> string" where
  "phrasebooks_file_name crepr lang translation_lang =
     ''phrasebook_'' @ py_format crepr lang @ ''_'' @ py_format crepr translation_lang @ ''.json''"

definition phrasebooks_batch ::
    "(json \<Rightarrow> string) \<Rightarrow> json \<Rightarrow> error + string \<times> (string \<times> json) list \<times> json list" where
  "phrasebooks_batch crepr data =
     rbind (py_getitem data ''meta'') (\<lambda>meta.
     rbind (py_getitem data ''entries'') (\<lambda>entries.
     rbind (py_getitem meta ''lang'') (\<lambda>lang.
     rbind (py_getitem meta ''translation_lang'') (\<lambda>translation_lang.
     rbind (py_iter entries) (\<lambda>es.
     rbind (list_comp (\<lambda>entry. phrasebooks_ensure_ordered_entry entry meta) es) (\<lambda>normalized.
     Inr (phrasebooks_file_name crepr lang translation_lang,
          [(''lang'', lang), (''translation_lang'', translation_lang)],
          map JObj normalized)))))))"

definition phrasebooks_merge_file :: "(json \<Rightarrow> string) \<Rightarrow> merged \<Rightarrow> json \<Rightarrow> error + merged" where
  "phrasebooks_merge_file crepr merged_data data =
     rbind (phrasebooks_batch crepr data) (\<lambda>(filename, m, es).
     Inr (extend_entries (set_meta merged_data filename m) filename es))"

fun phrasebooks_loop :: "(json \<Rightarrow> string) \<Rightarrow> merged \<Rightarrow> json list \<Rightarrow> error + merged" where
  "phrasebooks_loop crepr merged_data [] = Inr merged_data"
| "phrasebooks_loop crepr merged_data (data # files) =
     (case phrasebooks_merge_file crepr merged_data data of
        Inl e \<Rightarrow> Inl e
      | Inr merged_data' \<Rightarrow> phrasebooks_loop crepr merged_data' files)"

definition collect_phrasebooks :: "(json \<Rightarrow> string) \<Rightarrow> json list \<Rightarrow> error + merged" where
  "collect_phrasebooks crepr parsed = phrasebooks_loop crepr [] parsed"

section \<open>Writing the aggregates\<close>

text \<open>
  \<open>main\<close> writes one file for every item of the aggregate, in the order of the dict:
  \<^verbatim>\<open>with filepath.open("w", encoding="utf-8") as f: json.dump(data, f, ...)\<close>.
  \<open>json.dump\<close> belongs to the standard library: the text it produces is the parameter
  \<open>dump\<close>, applied to the two-key dict of the group.

  Opening or writing a file can fail: the name has a path separator and no such directory
  exists, the directory is not writable, the name or the text cannot be encoded, the disk is
  full. What the operating system answers is the parameter \<open>io\<close>: \<open>io filename text\<close> is
  \<open>None\<close> when the file \<open>OUTPUT_DIR / filename\<close> is opened and \<open>text\<close> is written to
  it, and the exception otherwise. No exception is caught, so the first failure ends \<open>main\<close>
  and the items after it are not written.

  The effect of \<open>main\<close> is the sequence of the writes it has completed, each a file name
  and the text written under it. \<open>main\<close> returns the exception that ended it, if any, and
  that sequence, appended to the writes \<open>log\<close> made before it. A write that fails may
  have created or truncated its file before it failed; the sequence does not record that, so
  it says what has been written in full, not what the directory holds. The model starts after
  \<^verbatim>\<open>OUTPUT_DIR.mkdir(parents=True, exist_ok=True)\<close> has returned.
\<close>

type_synonym writes = "(string \<times> string) list"

definition group_json :: "group \<Rightarrow> json" where
  "group_json g = JObj [(''meta'', JObj (group_meta g)), (''entries'', JList (group_entries g))]"

fun write_all ::
    "(string \<Rightarrow> string \<Rightarrow> error option) \<Rightarrow> (json \<Rightarrow> string) \<Rightarrow> merged \<Rightarrow> writes \<Rightarrow> error option \<times> writes" where
  "write_all io dump [] log = (None, log)"
| "write_all io dump ((filename, data) # items) log =
     (case io filename (dump (group_json data)) of
        Some e \<Rightarrow> (Some e, log)
      | None \<Rightarrow> write_all io dump items (log @ [(filename, dump (group_json data))]))"

definition dictionaries_main ::
    "(string \<Rightarrow> string \<Rightarrow> error option) \<Rightarrow> (json \<Rightarrow> string) \<Rightarrow> (json \<Rightarrow> string) \<Rightarrow> json list \<Rightarrow> writes
      \<Rightarrow> error option \<times> writes" where
  "dictionaries_main io crepr dump parsed log =
     (case collect_dictionaries crepr parsed of
        Inl e \<Rightarrow> (Some e, log)
      | Inr merged_dictionaries \<Rightarrow> write_all io dump merged_dictionaries log)"

definition phrasebooks_main ::
    "(string \<Rightarrow> string \<Rightarrow> error option) \<Rightarrow> (json \<Rightarrow> string) \<Rightarrow> (json \<Rightarrow> string) \<Rightarrow> json list \<Rightarrow> writes
      \<Rightarrow> error option \<times> writes" where
  "phrasebooks_main io crepr dump parsed log =
     (case collect_phrasebooks crepr parsed of
        Inl e \<Rightarrow> (Some e, log)
      | Inr merged_phrasebooks \<Rightarrow> write_all io dump merged_phrasebooks log)"

section \<open>Properties of records\<close>

text \<open>A record is pruned when none of its keys maps to \<open>None\<close>, the empty string or the empty list.\<close>

definition pruned :: "(string \<times> json) list \<Rightarrow> bool" where
  "pruned r = (\<forall>(k, v) \<in> set r. v \<noteq> JNull \<and> v \<noteq> JStr '''' \<and> v \<noteq> JList [])"

section \<open>The two loops as one\<close>

text \<open>
  The loops of \<open>collect_dictionaries\<close> and \<open>collect_phrasebooks\<close> differ only in what
  they compute from a file. \<open>merge_batches\<close> is that loop with the computation as a
  parameter; both loops are shown below to be instances of it.
\<close>

fun merge_batches ::
    "(json \<Rightarrow> error + string \<times> (string \<times> json) list \<times> json list) \<Rightarrow> merged \<Rightarrow> json list \<Rightarrow> error + merged" where
  "merge_batches batch merged_data [] = Inr merged_data"
| "merge_batches batch merged_data (data # files) =
     (case batch data of
        Inl e \<Rightarrow> Inl e
      | Inr (filename, m, es) \<Rightarrow>
          merge_batches batch (extend_entries (set_meta merged_data filename m) filename es) files)"

text \<open>The entries stored under a file name, none when the name is not a key.\<close>

definition entries_of :: "merged \<Rightarrow> string \<Rightarrow> json list" where
  "entries_of merged_data filename =
     (case map_of merged_data filename of None \<Rightarrow> [] | Some g \<Rightarrow> group_entries g)"

text \<open>
  What one file adds to the group of a file name: its normalized entries when the file
  belongs to that group, nothing otherwise.
\<close>

definition contribution ::
    "(json \<Rightarrow> error + string \<times> (string \<times> json) list \<times> json list) \<Rightarrow> string \<Rightarrow> json \<Rightarrow> json list" where
  "contribution batch filename data =
     (case batch data of
        Inl e \<Rightarrow> []
      | Inr (filename', m, es) \<Rightarrow> (if filename' = filename then es else []))"

text \<open>The meta stored under a file name, empty when the name is not a key.\<close>

definition meta_of :: "merged \<Rightarrow> string \<Rightarrow> (string \<times> json) list" where
  "meta_of merged_data filename =
     (case map_of merged_data filename of None \<Rightarrow> [] | Some g \<Rightarrow> group_meta g)"

section \<open>The aggregate, said without the loop\<close>

text \<open>
  What the aggregate of a sequence of files is expected to be, for comparison with what the
  loop builds. The keys are the file names of the files, each at its first appearance. The
  meta of a group is the meta of the last file with its name, and its entries are what the
  files add to it, in the order of the files.
\<close>

fun appearance :: "string list \<Rightarrow> string list" where
  "appearance [] = []"
| "appearance (x # xs) = x # filter (\<lambda>y. y \<noteq> x) (appearance xs)"

definition file_names ::
    "(json \<Rightarrow> error + string \<times> (string \<times> json) list \<times> json list) \<Rightarrow> json list \<Rightarrow> string list" where
  "file_names batch files =
     concat (map (\<lambda>data. case batch data of Inl e \<Rightarrow> [] | Inr (filename, m, es) \<Rightarrow> [filename]) files)"

definition metas ::
    "(json \<Rightarrow> error + string \<times> (string \<times> json) list \<times> json list) \<Rightarrow> string \<Rightarrow> json list
      \<Rightarrow> (string \<times> json) list list" where
  "metas batch filename files =
     concat (map (\<lambda>data. case batch data of
        Inl e \<Rightarrow> []
      | Inr (filename', m, es) \<Rightarrow> (if filename' = filename then [m] else [])) files)"

definition expected_group ::
    "(json \<Rightarrow> error + string \<times> (string \<times> json) list \<times> json list) \<Rightarrow> json list \<Rightarrow> string \<Rightarrow> group" where
  "expected_group batch files filename =
     \<lparr>group_meta = (case rev (metas batch filename files) of [] \<Rightarrow> [] | m # ms \<Rightarrow> m),
      group_entries = concat (map (contribution batch filename) files)\<rparr>"

definition expected_aggregate ::
    "(json \<Rightarrow> error + string \<times> (string \<times> json) list \<times> json list) \<Rightarrow> json list \<Rightarrow> merged" where
  "expected_aggregate batch files =
     map (\<lambda>filename. (filename, expected_group batch files filename))
       (appearance (file_names batch files))"

section \<open>Stand-ins for the examples\<close>

text \<open>
  Stand-ins for the library functions and for the operating system in the worked examples.
  The examples format only strings, so \<open>example_repr\<close> is never applied in them;
  \<open>example_io\<close> lets every write succeed.
\<close>

definition example_repr :: "json \<Rightarrow> string" where
  "example_repr v = ''<repr>''"

definition example_dump :: "json \<Rightarrow> string" where
  "example_dump v = ''<json text>''"

definition example_io :: "string \<Rightarrow> string \<Rightarrow> error option" where
  "example_io filename text = None"

text \<open>
  Three dictionary files: two for \<open>tgl\<close>/\<open>eng\<close> with two entries each, one entry
  in both, and a file for \<open>ceb\<close>/\<open>eng\<close> between them; and the aggregate expected of
  them.
\<close>

definition example_dictionary_files :: "json list" where
  "example_dictionary_files =
     [JObj [(''meta'', JObj [(''lang'', JStr ''tgl''), (''definition_lang'', JStr ''eng'')]),
            (''entries'', JList [JObj [(''word'', JStr ''aso'')], JObj [(''word'', JStr ''pusa'')]])],
      JObj [(''meta'', JObj [(''lang'', JStr ''ceb''), (''definition_lang'', JStr ''eng'')]),
            (''entries'', JList [JObj [(''word'', JStr ''iro'')]])],
      JObj [(''meta'', JObj [(''lang'', JStr ''tgl''), (''definition_lang'', JStr ''eng'')]),
            (''entries'', JList [JObj [(''word'', JStr ''pusa'')], JObj [(''word'', JStr ''ibon'')]])]]"

definition example_dictionary_aggregate :: merged where
  "example_dictionary_aggregate =
     [(''dictionary_tgl_eng.json'',
       \<lparr>group_meta = [(''lang'', JStr ''tgl''), (''definition_lang'', JStr ''eng'')],
        group_entries =
          [JObj [(''word'', JStr ''aso'')], JObj [(''word'', JStr ''pusa'')],
           JObj [(''word'', JStr ''pusa'')], JObj [(''word'', JStr ''ibon'')]]\<rparr>),
      (''dictionary_ceb_eng.json'',
       \<lparr>group_meta = [(''lang'', JStr ''ceb''), (''definition_lang'', JStr ''eng'')],
        group_entries = [JObj [(''word'', JStr ''iro'')]]\<rparr>)]"

text \<open>The same for phrasebooks.\<close>

definition example_phrasebook_files :: "json list" where
  "example_phrasebook_files =
     [JObj [(''meta'', JObj [(''lang'', JStr ''tgl''), (''translation_lang'', JStr ''eng'')]),
            (''entries'', JList
               [JObj [(''phrase'', JStr ''oo''), (''translations'', JList [])],
                JObj [(''phrase'', JStr ''hindi''), (''translations'', JList [])]])],
      JObj [(''meta'', JObj [(''lang'', JStr ''ceb''), (''translation_lang'', JStr ''eng'')]),
            (''entries'', JList [JObj [(''phrase'', JStr ''oo''), (''translations'', JList [])]])],
      JObj [(''meta'', JObj [(''lang'', JStr ''tgl''), (''translation_lang'', JStr ''eng'')]),
            (''entries'', JList
               [JObj [(''phrase'', JStr ''hindi''), (''translations'', JList [])],
                JObj [(''phrase'', JStr ''salamat''), (''translations'', JList [])]])]]"

definition example_phrasebook_aggregate :: merged where
  "example_phrasebook_aggregate =
     [(''phrasebook_tgl_eng.json'',
       \<lparr>group_meta = [(''lang'', JStr ''tgl''), (''translation_lang'', JStr ''eng'')],
        group_entries =
          [JObj [(''phrase'', JStr ''oo'')], JObj [(''phrase'', JStr ''hindi'')],
           JObj [(''phrase'', JStr ''hindi'')], JObj [(''phrase'', JStr ''salamat'')]]\<rparr>),
      (''phrasebook_ceb_eng.json'',
       \<lparr>group_meta = [(''lang'', JStr ''ceb''), (''translation_lang'', JStr ''eng'')],
        group_entries = [JObj [(''phrase'', JStr ''oo'')]]\<rparr>)]"

section \<open>Basic facts\<close>

lemma rbind_simps [simp]: "rbind (Inl e) f = Inl e" "rbind (Inr x) f = f x"
  by (simp_all add: rbind_def)

lemma rbind_Inr_iff: "rbind m f = Inr r \<longleftrightarrow> (\<exists>x. m = Inr x \<and> f x = Inr r)"
  by (cases m) simp_all

lemma py_get_Inr: "py_get x k dflt = Inr v \<Longrightarrow> \<exists>kvs. x = JObj kvs"
  by (cases x) (simp_all add: py_get_def)

lemma py_get_JObj [simp]: "py_get (JObj kvs) k dflt = Inr (case map_of kvs k of None \<Rightarrow> dflt | Some v \<Rightarrow> v)"
  by (simp add: py_get_def)

lemma py_getitem_JObj [simp]: "py_getitem (JObj kvs) k = (case map_of kvs k of None \<Rightarrow> Inl KeyError | Some v \<Rightarrow> Inr v)"
  by (simp add: py_getitem_def)

lemma pruned_dictionaries_filter: "pruned (dictionaries_filter_empty_fields data)"
  by (auto simp: pruned_def dictionaries_filter_empty_fields_def)

lemma pruned_phrasebooks_filter: "pruned (phrasebooks_filter_empty_fields data)"
  by (auto simp: pruned_def phrasebooks_filter_empty_fields_def)

lemma ensure_ordered_definition_Inr:
  "ensure_ordered_definition d meta = Inr r \<Longrightarrow> \<exists>data. map fst data = [''description'', ''pos'', ''origin'', ''usage_note'', ''synonyms'', ''antonyms'', ''inflections'', ''examples'', ''source_title'', ''source_link''] \<and> r = dictionaries_filter_empty_fields data"
  unfolding ensure_ordered_definition_def rbind_Inr_iff
  apply (elim exE conjE)
  apply (rule exI, rule conjI)
   prefer 2
   apply (erule sum.inject [THEN iffD1, symmetric])
  apply simp
  done

lemma ensure_ordered_translation_Inr:
  "ensure_ordered_translation d meta = Inr r \<Longrightarrow> \<exists>data. map fst data = [''content'', ''examples'', ''source_title'', ''source_link''] \<and> r = phrasebooks_filter_empty_fields data"
  unfolding ensure_ordered_translation_def rbind_Inr_iff
  apply (elim exE conjE)
  apply (rule exI, rule conjI)
   prefer 2
   apply (erule sum.inject [THEN iffD1, symmetric])
  apply simp
  done

lemma dictionaries_ensure_ordered_entry_Inr:
  "dictionaries_ensure_ordered_entry e meta = Inr r \<Longrightarrow> \<exists>word ds. entry_definitions e meta = Inr ds \<and> r = dictionaries_filter_empty_fields [(''word'', word), (''definitions'', JList (map JObj ds))]"
  unfolding dictionaries_ensure_ordered_entry_def rbind_Inr_iff by fastforce

lemma phrasebooks_ensure_ordered_entry_Inr:
  "phrasebooks_ensure_ordered_entry e meta = Inr r \<Longrightarrow> \<exists>p c u ts. entry_translations e meta = Inr ts \<and> r = phrasebooks_filter_empty_fields [(''phrase'', p), (''categories'', c), (''usage_note'', u), (''translations'', JList (map JObj ts))]"
  unfolding phrasebooks_ensure_ordered_entry_def rbind_Inr_iff by fastforce

lemma list_comp_Inr: "list_comp f xs = Inr ys \<Longrightarrow> list_all2 (\<lambda>x y. f x = Inr y) xs ys"
  by (induction xs arbitrary: ys) (auto split: sum.splits)


lemma entry_definitions_pruned:
  "entry_definitions e meta = Inr ds \<Longrightarrow> x \<in> set ds \<Longrightarrow> pruned x"
  unfolding entry_definitions_def rbind_Inr_iff
  apply (elim exE conjE)
  apply (drule list_comp_Inr)
  apply (auto simp: list_all2_conv_all_nth in_set_conv_nth dest!: ensure_ordered_definition_Inr simp: pruned_dictionaries_filter)
  done

lemma entry_translations_pruned:
  "entry_translations e meta = Inr ds \<Longrightarrow> x \<in> set ds \<Longrightarrow> pruned x"
  unfolding entry_translations_def rbind_Inr_iff
  apply (elim exE conjE)
  apply (drule list_comp_Inr)
  apply (auto simp: list_all2_conv_all_nth in_set_conv_nth dest!: ensure_ordered_translation_Inr simp: pruned_phrasebooks_filter)
  done

section \<open>Pruning and field order\<close>

text \<open>
  Claim C2. Every record the normalisers return is pruned: a Definition, a Translation, a
  dictionary entry and a phrasebook entry have no key that maps to \<open>None\<close>, to the
  empty string or to the empty list, and so has every Definition under the
  \<open>definitions\<close> key of an entry and every Translation under the \<open>translations\<close> key.
\<close>

theorem emitted_records_pruned:
  "(ensure_ordered_definition d meta1 = Inr r1 \<longrightarrow> pruned r1) \<and>
   (ensure_ordered_translation t meta2 = Inr r2 \<longrightarrow> pruned r2) \<and>
   (dictionaries_ensure_ordered_entry e3 meta3 = Inr r3 \<longrightarrow>
      pruned r3 \<and> (\<forall>xs x. (''definitions'', JList xs) \<in> set r3 \<longrightarrow> x \<in> set xs \<longrightarrow> (\<exists>r'. x = JObj r' \<and> pruned r'))) \<and>
   (phrasebooks_ensure_ordered_entry e4 meta4 = Inr r4 \<longrightarrow>
      pruned r4 \<and> (\<forall>xs x. (''translations'', JList xs) \<in> set r4 \<longrightarrow> x \<in> set xs \<longrightarrow> (\<exists>r'. x = JObj r' \<and> pruned r')))"
proof (intro conjI impI allI)
  assume "ensure_ordered_definition d meta1 = Inr r1"
  then show "pruned r1"
    by (auto dest!: ensure_ordered_definition_Inr simp: pruned_dictionaries_filter)
next
  assume "ensure_ordered_translation t meta2 = Inr r2"
  then show "pruned r2"
    by (auto dest!: ensure_ordered_translation_Inr simp: pruned_phrasebooks_filter)
next
  assume "dictionaries_ensure_ordered_entry e3 meta3 = Inr r3"
  then show "pruned r3"
    by (auto dest!: dictionaries_ensure_ordered_entry_Inr simp: pruned_dictionaries_filter)
next
  fix xs x
  assume a: "dictionaries_ensure_ordered_entry e3 meta3 = Inr r3"
    and m: "(''definitions'', JList xs) \<in> set r3" and x: "x \<in> set xs"
  from a obtain word ds where ds: "entry_definitions e3 meta3 = Inr ds"
    and r3: "r3 = dictionaries_filter_empty_fields [(''word'', word), (''definitions'', JList (map JObj ds))]"
    by (auto dest!: dictionaries_ensure_ordered_entry_Inr)
  from m r3 have "xs = map JObj ds"
    by (auto simp: dictionaries_filter_empty_fields_def split: if_splits)
  with x ds show "\<exists>r'. x = JObj r' \<and> pruned r'"
    by (auto dest: entry_definitions_pruned)
next
  assume "phrasebooks_ensure_ordered_entry e4 meta4 = Inr r4"
  then show "pruned r4"
    by (auto dest!: phrasebooks_ensure_ordered_entry_Inr simp: pruned_phrasebooks_filter)
next
  fix xs x
  assume a: "phrasebooks_ensure_ordered_entry e4 meta4 = Inr r4"
    and m: "(''translations'', JList xs) \<in> set r4" and x: "x \<in> set xs"
  from a obtain p c u ts where ts: "entry_translations e4 meta4 = Inr ts"
    and r4: "r4 = phrasebooks_filter_empty_fields
        [(''phrase'', p), (''categories'', c), (''usage_note'', u), (''translations'', JList (map JObj ts))]"
    by (auto dest!: phrasebooks_ensure_ordered_entry_Inr)
  from m r4 have "xs = map JObj ts"
    by (auto simp: phrasebooks_filter_empty_fields_def split: if_splits)
  with x ts show "\<exists>r'. x = JObj r' \<and> pruned r'"
    by (auto dest: entry_translations_pruned)
qed

theorem emitted_records_pruned_witness:
  "ensure_ordered_definition
     (JObj [(''description'', JStr ''dog''), (''pos'', JStr []), (''synonyms'', JList [])])
     (JObj [(''source_title'', JStr ''S1'')])
     = Inr [(''description'', JStr ''dog''), (''source_title'', JStr ''S1'')] \<and>
   pruned [(''description'', JStr ''dog''), (''source_title'', JStr ''S1'')] \<and>
   ensure_ordered_translation
     (JObj [(''content'', JStr ''hola''), (''examples'', JList [])]) (JObj [])
     = Inr [(''content'', JStr ''hola'')] \<and>
   pruned [(''content'', JStr ''hola'')] \<and>
   dictionaries_ensure_ordered_entry
     (JObj [(''word'', JStr ''aso''), (''definitions'', JList [JObj [(''description'', JStr ''dog'')]])])
     (JObj [(''source_title'', JStr ''S1'')])
     = Inr [(''word'', JStr ''aso''),
            (''definitions'', JList [JObj [(''description'', JStr ''dog''), (''source_title'', JStr ''S1'')]])] \<and>
   pruned [(''word'', JStr ''aso''),
           (''definitions'', JList [JObj [(''description'', JStr ''dog''), (''source_title'', JStr ''S1'')]])] \<and>
   phrasebooks_ensure_ordered_entry
     (JObj [(''phrase'', JStr ''hello''), (''translations'', JList [JObj [(''content'', JStr ''hola'')]])])
     (JObj [])
     = Inr [(''phrase'', JStr ''hello''), (''translations'', JList [JObj [(''content'', JStr ''hola'')]])] \<and>
   pruned [(''phrase'', JStr ''hello''), (''translations'', JList [JObj [(''content'', JStr ''hola'')]])]"
proof -
  have d: "ensure_ordered_definition
     (JObj [(''description'', JStr ''dog''), (''pos'', JStr []), (''synonyms'', JList [])])
     (JObj [(''source_title'', JStr ''S1'')])
     = Inr [(''description'', JStr ''dog''), (''source_title'', JStr ''S1'')]"
    by (simp add: ensure_ordered_definition_def dictionaries_filter_empty_fields_def)
  have t: "ensure_ordered_translation
     (JObj [(''content'', JStr ''hola''), (''examples'', JList [])]) (JObj [])
     = Inr [(''content'', JStr ''hola'')]"
    by (simp add: ensure_ordered_translation_def phrasebooks_filter_empty_fields_def)
  have e: "dictionaries_ensure_ordered_entry
     (JObj [(''word'', JStr ''aso''), (''definitions'', JList [JObj [(''description'', JStr ''dog'')]])])
     (JObj [(''source_title'', JStr ''S1'')])
     = Inr [(''word'', JStr ''aso''),
            (''definitions'', JList [JObj [(''description'', JStr ''dog''), (''source_title'', JStr ''S1'')]])]"
    by (simp add: dictionaries_ensure_ordered_entry_def entry_definitions_def py_iter_def
        ensure_ordered_definition_def dictionaries_filter_empty_fields_def)
  have p: "phrasebooks_ensure_ordered_entry
     (JObj [(''phrase'', JStr ''hello''), (''translations'', JList [JObj [(''content'', JStr ''hola'')]])])
     (JObj [])
     = Inr [(''phrase'', JStr ''hello''), (''translations'', JList [JObj [(''content'', JStr ''hola'')]])]"
    by (simp add: phrasebooks_ensure_ordered_entry_def entry_translations_def py_iter_def
        ensure_ordered_translation_def phrasebooks_filter_empty_fields_def)
  from emitted_records_pruned [of
      "JObj [(''description'', JStr ''dog''), (''pos'', JStr []), (''synonyms'', JList [])]"
      "JObj [(''source_title'', JStr ''S1'')]"
      "[(''description'', JStr ''dog''), (''source_title'', JStr ''S1'')]"
      "JObj [(''content'', JStr ''hola''), (''examples'', JList [])]" "JObj []"
      "[(''content'', JStr ''hola'')]"
      "JObj [(''word'', JStr ''aso''), (''definitions'', JList [JObj [(''description'', JStr ''dog'')]])]"
      "JObj [(''source_title'', JStr ''S1'')]"
      "[(''word'', JStr ''aso''),
        (''definitions'', JList [JObj [(''description'', JStr ''dog''), (''source_title'', JStr ''S1'')]])]"
      "JObj [(''phrase'', JStr ''hello''), (''translations'', JList [JObj [(''content'', JStr ''hola'')]])]"
      "JObj []"
      "[(''phrase'', JStr ''hello''), (''translations'', JList [JObj [(''content'', JStr ''hola'')]])]"]
    d t e p
  show ?thesis by (intro conjI) (rule d, blast, rule t, blast, rule e, blast, rule p, blast)
qed

lemma dictionaries_keys_subseq:
  "subseq (map fst (dictionaries_filter_empty_fields data)) (map fst data)"
  unfolding dictionaries_filter_empty_fields_def by (intro subseq_map subseq_filter_left)

lemma phrasebooks_keys_subseq:
  "subseq (map fst (phrasebooks_filter_empty_fields data)) (map fst data)"
  unfolding phrasebooks_filter_empty_fields_def by (intro subseq_map subseq_filter_left)

text \<open>
  Claim C3. The keys of a normalised Definition, read in order, are a subsequence of
  \<open>description, pos, origin, usage_note, synonyms, antonyms, inflections, examples,
  source_title, source_link\<close>, and the keys of a normalised Translation are a subsequence of
  \<open>content, examples, source_title, source_link\<close>: pruning drops keys and reorders none.
\<close>

theorem field_order:
  "(ensure_ordered_definition d meta1 = Inr r1 \<longrightarrow>
      subseq (map fst r1)
        [''description'', ''pos'', ''origin'', ''usage_note'', ''synonyms'', ''antonyms'',
         ''inflections'', ''examples'', ''source_title'', ''source_link'']) \<and>
   (ensure_ordered_translation t meta2 = Inr r2 \<longrightarrow>
      subseq (map fst r2) [''content'', ''examples'', ''source_title'', ''source_link''])"
proof (intro conjI impI)
  assume a: "ensure_ordered_definition d meta1 = Inr r1"
  from ensure_ordered_definition_Inr [OF a]
  show "subseq (map fst r1)
        [''description'', ''pos'', ''origin'', ''usage_note'', ''synonyms'', ''antonyms'',
         ''inflections'', ''examples'', ''source_title'', ''source_link'']"
  proof (elim exE conjE)
    fix data
    assume k: "map fst data =
        [''description'', ''pos'', ''origin'', ''usage_note'', ''synonyms'', ''antonyms'',
         ''inflections'', ''examples'', ''source_title'', ''source_link'']"
      and r: "r1 = dictionaries_filter_empty_fields data"
    show ?thesis unfolding r k [symmetric] by (rule dictionaries_keys_subseq)
  qed
next
  assume a: "ensure_ordered_translation t meta2 = Inr r2"
  from ensure_ordered_translation_Inr [OF a]
  show "subseq (map fst r2) [''content'', ''examples'', ''source_title'', ''source_link'']"
  proof (elim exE conjE)
    fix data
    assume k: "map fst data = [''content'', ''examples'', ''source_title'', ''source_link'']"
      and r: "r2 = phrasebooks_filter_empty_fields data"
    show ?thesis unfolding r k [symmetric] by (rule phrasebooks_keys_subseq)
  qed
qed

theorem field_order_witness:
  "ensure_ordered_definition
     (JObj [(''source_link'', JStr ''L''), (''pos'', JStr []), (''description'', JStr ''dog'')])
     (JObj [(''lang'', JStr ''tgl''), (''source_title'', JStr ''S1'')])
   = Inr [(''description'', JStr ''dog''), (''source_title'', JStr ''S1''), (''source_link'', JStr ''L'')] \<and>
   subseq (map fst [(''description'', JStr ''dog''), (''source_title'', JStr ''S1''), (''source_link'', JStr ''L'')])
     [''description'', ''pos'', ''origin'', ''usage_note'', ''synonyms'', ''antonyms'',
      ''inflections'', ''examples'', ''source_title'', ''source_link''] \<and>
   ensure_ordered_translation
     (JObj [(''examples'', JList [JStr ''x'']), (''content'', JStr ''hola'')]) (JObj [])
   = Inr [(''content'', JStr ''hola''), (''examples'', JList [JStr ''x''])] \<and>
   subseq (map fst [(''content'', JStr ''hola''), (''examples'', JList [JStr ''x''])])
     [''content'', ''examples'', ''source_title'', ''source_link'']"
proof -
  have d: "ensure_ordered_definition
     (JObj [(''source_link'', JStr ''L''), (''pos'', JStr []), (''description'', JStr ''dog'')])
     (JObj [(''lang'', JStr ''tgl''), (''source_title'', JStr ''S1'')])
   = Inr [(''description'', JStr ''dog''), (''source_title'', JStr ''S1''), (''source_link'', JStr ''L'')]"
    by (simp add: ensure_ordered_definition_def dictionaries_filter_empty_fields_def)
  have t: "ensure_ordered_translation
     (JObj [(''examples'', JList [JStr ''x'']), (''content'', JStr ''hola'')]) (JObj [])
   = Inr [(''content'', JStr ''hola''), (''examples'', JList [JStr ''x''])]"
    by (simp add: ensure_ordered_translation_def phrasebooks_filter_empty_fields_def)
  from field_order [of "JObj [(''source_link'', JStr ''L''), (''pos'', JStr []), (''description'', JStr ''dog'')]"
      "JObj [(''lang'', JStr ''tgl''), (''source_title'', JStr ''S1'')]"
      "[(''description'', JStr ''dog''), (''source_title'', JStr ''S1''), (''source_link'', JStr ''L'')]"
      "JObj [(''examples'', JList [JStr ''x'']), (''content'', JStr ''hola'')]" "JObj []"
      "[(''content'', JStr ''hola''), (''examples'', JList [JStr ''x''])]"] d t
  show ?thesis by (intro conjI) (rule d, blast, rule t, blast)
qed

section \<open>Values that are not empty\<close>

text \<open>
  Claim C7. A field whose value is the boolean \<open>False\<close> or the number \<open>0\<close> stays in
  the record: both copies of \<open>filter_empty_fields\<close> keep it.
\<close>

theorem false_and_zero_survive:
  "(k, v) \<in> set data \<Longrightarrow> v = JBool False \<or> v = JInt 0 \<Longrightarrow>
     (k, v) \<in> set (dictionaries_filter_empty_fields data) \<and>
     (k, v) \<in> set (phrasebooks_filter_empty_fields data)"
  by (auto simp: dictionaries_filter_empty_fields_def phrasebooks_filter_empty_fields_def)

theorem false_and_zero_survive_witness:
  "(''pos'', JBool False) \<in> set (dictionaries_filter_empty_fields
       [(''description'', JNull), (''pos'', JBool False), (''n'', JInt 0)]) \<and>
   (''n'', JInt 0) \<in> set (phrasebooks_filter_empty_fields
       [(''description'', JNull), (''pos'', JBool False), (''n'', JInt 0)])"
  using false_and_zero_survive [of "''pos''" "JBool False"
      "[(''description'', JNull), (''pos'', JBool False), (''n'', JInt 0)]"]
    false_and_zero_survive [of "''n''" "JInt 0"
      "[(''description'', JNull), (''pos'', JBool False), (''n'', JInt 0)]"]
  by simp

section \<open>Default inheritance\<close>

text \<open>
  What the two sub-record normalisers compute on an \<open>OrderedDict\<close>. A Translation takes
  \<open>source_title\<close> and \<open>source_link\<close> from itself, else from the batch meta, else
  \<open>None\<close>, which pruning removes. A Definition does the same for \<open>source_link\<close>, and
  for \<open>source_title\<close> when the batch meta has the key.
\<close>

lemma ensure_ordered_translation_JObj:
  "ensure_ordered_translation (JObj kvs) (JObj m) =
     Inr (phrasebooks_filter_empty_fields
       [(''content'', case map_of kvs ''content'' of None \<Rightarrow> JNull | Some v \<Rightarrow> v),
        (''examples'', case map_of kvs ''examples'' of None \<Rightarrow> JNull | Some v \<Rightarrow> v),
        (''source_title'',
           case map_of kvs ''source_title'' of
             None \<Rightarrow> (case map_of m ''source_title'' of None \<Rightarrow> JNull | Some v \<Rightarrow> v)
           | Some v \<Rightarrow> v),
        (''source_link'',
           case map_of kvs ''source_link'' of
             None \<Rightarrow> (case map_of m ''source_link'' of None \<Rightarrow> JNull | Some v \<Rightarrow> v)
           | Some v \<Rightarrow> v)])"
  by (simp add: ensure_ordered_translation_def)

lemma ensure_ordered_definition_JObj:
  "map_of m ''source_title'' = Some title \<Longrightarrow>
   ensure_ordered_definition (JObj kvs) (JObj m) =
     Inr (dictionaries_filter_empty_fields
       [(''description'', case map_of kvs ''description'' of None \<Rightarrow> JNull | Some v \<Rightarrow> v),
        (''pos'', case map_of kvs ''pos'' of None \<Rightarrow> JNull | Some v \<Rightarrow> v),
        (''origin'', case map_of kvs ''origin'' of None \<Rightarrow> JNull | Some v \<Rightarrow> v),
        (''usage_note'', case map_of kvs ''usage_note'' of None \<Rightarrow> JNull | Some v \<Rightarrow> v),
        (''synonyms'', case map_of kvs ''synonyms'' of None \<Rightarrow> JList [] | Some v \<Rightarrow> v),
        (''antonyms'', case map_of kvs ''antonyms'' of None \<Rightarrow> JList [] | Some v \<Rightarrow> v),
        (''inflections'', case map_of kvs ''inflections'' of None \<Rightarrow> JList [] | Some v \<Rightarrow> v),
        (''examples'', case map_of kvs ''examples'' of None \<Rightarrow> JList [] | Some v \<Rightarrow> v),
        (''source_title'', case map_of kvs ''source_title'' of None \<Rightarrow> title | Some v \<Rightarrow> v),
        (''source_link'',
           case map_of kvs ''source_link'' of
             None \<Rightarrow> (case map_of m ''source_link'' of None \<Rightarrow> JNull | Some v \<Rightarrow> v)
           | Some v \<Rightarrow> v)])"
  by (simp add: ensure_ordered_definition_def)

text \<open>
  Claim C1. The claim says that a Definition whose batch meta has no \<open>source_title\<close>
  still normalises, the field being absent from the result. In the code
  \<^verbatim>\<open>definition.get("source_title", meta["source_title"])\<close> subscripts the meta: when the
  meta has no \<open>source_title\<close>, normalising any Definition raises \<open>KeyError\<close>, also a
  Definition that has a \<open>source_title\<close> of its own.
\<close>

theorem definition_needs_meta_source_title:
  "map_of m ''source_title'' = None \<Longrightarrow>
   ensure_ordered_definition (JObj kvs) (JObj m) = Inl KeyError"
  by (simp add: ensure_ordered_definition_def)

theorem definition_needs_meta_source_title_witness:
  "ensure_ordered_definition
     (JObj [(''description'', JStr ''cat''), (''source_title'', JStr ''S2'')])
     (JObj [(''lang'', JStr ''tgl''), (''definition_lang'', JStr ''eng'')]) = Inl KeyError"
  using definition_needs_meta_source_title
    [of "[(''lang'', JStr ''tgl''), (''definition_lang'', JStr ''eng'')]"
        "[(''description'', JStr ''cat''), (''source_title'', JStr ''S2'')]"]
  by simp

section \<open>Dictionary entries without definitions or without a word\<close>

lemma entry_definitions_JObj:
  "entry_definitions (JObj kvs) meta =
     rbind (py_iter (case map_of kvs ''definitions'' of None \<Rightarrow> JList [] | Some v \<Rightarrow> v))
       (list_comp (\<lambda>d. ensure_ordered_definition d meta))"
  by (simp add: entry_definitions_def)

text \<open>
  Claim C8. A raw dictionary entry without a \<open>definitions\<close> key normalises without
  error, for every batch meta, to the record an entry with the same \<open>word\<close> and an explicit
  empty \<open>definitions\<close> list normalises to: the \<open>word\<close> alone, or the empty record when the
  \<open>word\<close> is pruned too.
\<close>

theorem missing_definitions_as_empty:
  assumes "map_of kvs ''definitions'' = None"
    and "map_of kvs' ''definitions'' = Some (JList [])"
    and "map_of kvs' ''word'' = map_of kvs ''word''"
  shows "dictionaries_ensure_ordered_entry (JObj kvs) meta =
           Inr (dictionaries_filter_empty_fields
             [(''word'', case map_of kvs ''word'' of None \<Rightarrow> JNull | Some w \<Rightarrow> w)]) \<and>
         dictionaries_ensure_ordered_entry (JObj kvs') meta =
           dictionaries_ensure_ordered_entry (JObj kvs) meta"
  using assms
  by (simp add: dictionaries_ensure_ordered_entry_def entry_definitions_JObj py_iter_def
      dictionaries_filter_empty_fields_def)

theorem missing_definitions_as_empty_witness:
  "dictionaries_ensure_ordered_entry (JObj [(''word'', JStr ''aso'')]) JNull =
     Inr [(''word'', JStr ''aso'')] \<and>
   dictionaries_ensure_ordered_entry (JObj [(''word'', JStr ''aso''), (''definitions'', JList [])]) JNull =
     Inr [(''word'', JStr ''aso'')]"
  using missing_definitions_as_empty
    [of "[(''word'', JStr ''aso'')]" "[(''word'', JStr ''aso''), (''definitions'', JList [])]" JNull]
  by (simp add: dictionaries_filter_empty_fields_def)

text \<open>
  Claim C10, as stated, fails: an entry without a \<open>word\<close> whose \<open>definitions\<close> list
  holds a value that is not an object raises \<open>AttributeError\<close>, and a well-formed one raises
  \<open>KeyError\<close> under a batch meta without \<open>source_title\<close>.
\<close>

theorem entry_without_word_counterexample:
  "map_of [(''definitions'', JList [JStr ''dog''])] ''word'' = None \<and>
   dictionaries_ensure_ordered_entry
     (JObj [(''definitions'', JList [JStr ''dog''])])
     (JObj [(''lang'', JStr ''tgl''), (''definition_lang'', JStr ''eng''), (''source_title'', JStr ''S1'')])
     = Inl AttributeError \<and>
   map_of [(''definitions'', JList [JObj [(''description'', JStr ''dog'')]])] ''word'' = None \<and>
   dictionaries_ensure_ordered_entry
     (JObj [(''definitions'', JList [JObj [(''description'', JStr ''dog'')]])])
     (JObj [(''lang'', JStr ''tgl''), (''definition_lang'', JStr ''eng'')])
     = Inl KeyError"
  by (simp add: dictionaries_ensure_ordered_entry_def entry_definitions_def py_iter_def
      ensure_ordered_definition_def py_get_def)

text \<open>
  Claim C10, amended. For a raw dictionary entry whose \<open>word\<close> is absent, \<open>None\<close> or
  the empty string, the missing word raises nothing: normalisation fails exactly when
  normalising the definitions of the entry fails, with that exception, and otherwise returns a
  record without the \<open>word\<close> key, which holds the \<open>definitions\<close> alone when there is at
  least one and is the empty record when there is none.
\<close>

theorem entry_without_word:
  assumes "map_of kvs ''word'' = None \<or> map_of kvs ''word'' = Some JNull
      \<or> map_of kvs ''word'' = Some (JStr [])"
  shows "dictionaries_ensure_ordered_entry (JObj kvs) meta =
     (case entry_definitions (JObj kvs) meta of
        Inl e \<Rightarrow> Inl e
      | Inr ds \<Rightarrow> Inr (if ds = [] then [] else [(''definitions'', JList (map JObj ds))]))"
  using assms
  by (cases "entry_definitions (JObj kvs) meta")
    (auto simp: dictionaries_ensure_ordered_entry_def dictionaries_filter_empty_fields_def)

theorem entry_without_word_witness:
  "dictionaries_ensure_ordered_entry
     (JObj [(''word'', JStr []), (''definitions'', JList [JObj [(''description'', JStr ''dog'')]])])
     (JObj [(''source_title'', JStr ''S1'')])
     = Inr [(''definitions'', JList [JObj [(''description'', JStr ''dog''), (''source_title'', JStr ''S1'')]])] \<and>
   dictionaries_ensure_ordered_entry (JObj []) (JObj [(''source_title'', JStr ''S1'')]) = Inr []"
proof -
  have d: "entry_definitions
      (JObj [(''word'', JStr []), (''definitions'', JList [JObj [(''description'', JStr ''dog'')]])])
      (JObj [(''source_title'', JStr ''S1'')])
      = Inr [[(''description'', JStr ''dog''), (''source_title'', JStr ''S1'')]]"
    by (simp add: entry_definitions_def py_iter_def ensure_ordered_definition_def
        dictionaries_filter_empty_fields_def)
  have e: "entry_definitions (JObj []) (JObj [(''source_title'', JStr ''S1'')]) = Inr []"
    by (simp add: entry_definitions_def py_iter_def)
  show ?thesis
    using entry_without_word
        [of "[(''word'', JStr []), (''definitions'', JList [JObj [(''description'', JStr ''dog'')]])]"
            "JObj [(''source_title'', JStr ''S1'')]"]
      entry_without_word [of "[]" "JObj [(''source_title'', JStr ''S1'')]"]
    by (simp add: d e)
qed

section \<open>Facts about the aggregation loop\<close>

lemma dictionaries_loop_merge_batches:
  "dictionaries_loop crepr md files = merge_batches (dictionaries_batch crepr) md files"
proof (induction files arbitrary: md)
  case Nil
  show ?case by simp
next
  case (Cons data files)
  show ?case
  proof (cases "dictionaries_batch crepr data")
    case (Inl e)
    then show ?thesis by (simp add: dictionaries_merge_file_def)
  next
    case (Inr x)
    obtain filename m es where x: "x = (filename, m, es)" by (cases x)
    from Inr x Cons.IH show ?thesis by (simp add: dictionaries_merge_file_def)
  qed
qed

lemma phrasebooks_loop_merge_batches:
  "phrasebooks_loop crepr md files = merge_batches (phrasebooks_batch crepr) md files"
proof (induction files arbitrary: md)
  case Nil
  show ?case by simp
next
  case (Cons data files)
  show ?case
  proof (cases "phrasebooks_batch crepr data")
    case (Inl e)
    then show ?thesis by (simp add: phrasebooks_merge_file_def)
  next
    case (Inr x)
    obtain filename m es where x: "x = (filename, m, es)" by (cases x)
    from Inr x Cons.IH show ?thesis by (simp add: phrasebooks_merge_file_def)
  qed
qed

lemma map_of_getitem_default:
  "map_of (getitem_default md fn) =
     (case map_of md fn of
        None \<Rightarrow> (map_of md)(fn \<mapsto> \<lparr>group_meta = [], group_entries = []\<rparr>)
      | Some g \<Rightarrow> map_of md)"
  by (auto simp: getitem_default_def fun_eq_iff map_add_def split: option.splits)

lemma distinct_getitem_default:
  "distinct (map fst md) \<Longrightarrow> distinct (map fst (getitem_default md fn))"
  by (auto simp: getitem_default_def map_of_eq_None_iff split: option.splits)

lemma map_of_set_meta:
  "map_of (set_meta md fn m) =
     (map_of md)(fn \<mapsto> \<lparr>group_meta = m, group_entries = entries_of md fn\<rparr>)"
  by (auto simp: set_meta_def map_of_map_entry map_of_getitem_default entries_of_def fun_eq_iff
      split: option.splits)

lemma map_of_extend_entries:
  "map_of (extend_entries md fn es) =
     (map_of md)(fn \<mapsto>
       \<lparr>group_meta = (case map_of md fn of None \<Rightarrow> [] | Some g \<Rightarrow> group_meta g),
        group_entries = entries_of md fn @ es\<rparr>)"
  by (auto simp: extend_entries_def map_of_map_entry map_of_getitem_default entries_of_def
      fun_eq_iff split: option.splits)

lemma map_of_merge_step:
  "map_of (extend_entries (set_meta md fn m) fn es) =
     (map_of md)(fn \<mapsto> \<lparr>group_meta = m, group_entries = entries_of md fn @ es\<rparr>)"
  by (simp add: map_of_extend_entries map_of_set_meta entries_of_def)

lemma distinct_merge_step:
  "distinct (map fst md) \<Longrightarrow> distinct (map fst (extend_entries (set_meta md fn m) fn es))"
  by (simp add: extend_entries_def set_meta_def distinct_getitem_default distinct_map_entry)

lemma entries_of_merge_step:
  "entries_of (extend_entries (set_meta md fn m) fn es) fn' =
     entries_of md fn' @ (if fn = fn' then es else [])"
  by (simp add: entries_of_def map_of_merge_step)

lemma merge_batches_entries:
  "merge_batches batch md files = Inr md' \<Longrightarrow>
   entries_of md' fn = entries_of md fn @ concat (map (contribution batch fn) files)"
proof (induction files arbitrary: md)
  case Nil
  then show ?case by simp
next
  case (Cons data files)
  from Cons.prems obtain filename m es where b: "batch data = Inr (filename, m, es)"
    and rest: "merge_batches batch (extend_entries (set_meta md filename m) filename es) files = Inr md'"
    by (auto split: sum.splits)
  from Cons.IH [OF rest] b show ?case
    by (simp add: entries_of_merge_step contribution_def)
qed

lemma merge_batches_keys:
  "merge_batches batch md files = Inr md' \<Longrightarrow>
   dom (map_of md') = dom (map_of md) \<union> {fn. \<exists>data \<in> set files. \<exists>m es. batch data = Inr (fn, m, es)}"
proof (induction files arbitrary: md)
  case Nil
  then show ?case by simp
next
  case (Cons data files)
  from Cons.prems obtain filename m es where b: "batch data = Inr (filename, m, es)"
    and rest: "merge_batches batch (extend_entries (set_meta md filename m) filename es) files = Inr md'"
    by (auto split: sum.splits)
  have "dom (map_of (extend_entries (set_meta md filename m) filename es)) =
      insert filename (dom (map_of md))"
    by (simp add: map_of_merge_step)
  with Cons.IH [OF rest] b show ?case
    by auto
qed

lemma merge_batches_distinct:
  "merge_batches batch md files = Inr md' \<Longrightarrow> distinct (map fst md) \<Longrightarrow> distinct (map fst md')"
proof (induction files arbitrary: md)
  case Nil
  then show ?case by simp
next
  case (Cons data files)
  from Cons.prems obtain filename m es where b: "batch data = Inr (filename, m, es)"
    and rest: "merge_batches batch (extend_entries (set_meta md filename m) filename es) files = Inr md'"
    by (auto split: sum.splits)
  from Cons.IH [OF rest] Cons.prems(2) show ?case
    by (simp add: distinct_merge_step)
qed

lemma merge_batches_fails:
  "data \<in> set files \<Longrightarrow> batch data = Inl e \<Longrightarrow> \<exists>e'. merge_batches batch md files = Inl e'"
proof (induction files arbitrary: md)
  case Nil
  then show ?case by simp
next
  case (Cons d files)
  show ?case
  proof (cases "batch d")
    case (Inl e')
    then show ?thesis by simp
  next
    case (Inr x)
    obtain filename m es where x: "x = (filename, m, es)" by (cases x)
    from Inr Cons.prems have "data \<in> set files" by auto
    from Cons.IH [OF this Cons.prems(2)] Inr x show ?thesis by simp
  qed
qed

lemma merge_batches_grouping:
  assumes "merge_batches batch [] (pre @ b1 # mid @ b2 # post) = Inr md"
    and "batch b1 = Inr (fn, m1, es1)" and "batch b2 = Inr (fn, m2, es2)"
  shows "\<exists>g. map_of md fn = Some g \<and>
     group_entries g =
       concat (map (contribution batch fn) pre) @ es1 @
       concat (map (contribution batch fn) mid) @ es2 @
       concat (map (contribution batch fn) post)"
proof -
  from merge_batches_keys [OF assms(1)] assms(2) have "fn \<in> dom (map_of md)"
    by auto
  then obtain g where g: "map_of md fn = Some g" by auto
  from merge_batches_entries [OF assms(1), of fn] assms(2,3) g
  have "group_entries g =
       concat (map (contribution batch fn) pre) @ es1 @
       concat (map (contribution batch fn) mid) @ es2 @
       concat (map (contribution batch fn) post)"
    by (simp add: entries_of_def contribution_def)
  with g show ?thesis by simp
qed

lemma list_comp_fails:
  "x \<in> set xs \<Longrightarrow> f x = Inl e \<Longrightarrow> \<exists>e'. list_comp f xs = Inl e'"
  by (induction xs) (auto split: sum.splits)

lemma rbind_fails: "(\<And>x. \<exists>e. f x = Inl e) \<Longrightarrow> \<exists>e. rbind m f = Inl e"
  by (cases m) simp_all

lemma dictionaries_batch_fails:
  assumes "py_getitem data ''meta'' = Inr meta" and "py_getitem data ''entries'' = Inr entries"
    and "py_iter entries = Inr es" and "entry \<in> set es"
    and "dictionaries_ensure_ordered_entry entry meta = Inl err"
  shows "\<exists>e. dictionaries_batch crepr data = Inl e"
proof -
  from list_comp_fails [OF assms(4), of "\<lambda>entry. dictionaries_ensure_ordered_entry entry meta", OF assms(5)]
  obtain e' where "list_comp (\<lambda>entry. dictionaries_ensure_ordered_entry entry meta) es = Inl e'" ..
  with assms(1-3) show ?thesis
    unfolding dictionaries_batch_def by (auto intro!: rbind_fails)
qed

lemma phrasebooks_batch_fails:
  assumes "py_getitem data ''meta'' = Inr meta" and "py_getitem data ''entries'' = Inr entries"
    and "py_iter entries = Inr es" and "entry \<in> set es"
    and "phrasebooks_ensure_ordered_entry entry meta = Inl err"
  shows "\<exists>e. phrasebooks_batch crepr data = Inl e"
proof -
  from list_comp_fails [OF assms(4), of "\<lambda>entry. phrasebooks_ensure_ordered_entry entry meta", OF assms(5)]
  obtain e' where "list_comp (\<lambda>entry. phrasebooks_ensure_ordered_entry entry meta) es = Inl e'" ..
  with assms(1-3) show ?thesis
    unfolding phrasebooks_batch_def by (auto intro!: rbind_fails)
qed

lemma dictionaries_batch_key:
  "dictionaries_batch crepr data = Inr (fn, m, es) \<Longrightarrow>
   \<exists>lang definition_lang. m = [(''lang'', lang), (''definition_lang'', definition_lang)] \<and>
     fn = dictionaries_file_name crepr lang definition_lang"
  unfolding dictionaries_batch_def rbind_Inr_iff by auto

lemma phrasebooks_batch_key:
  "phrasebooks_batch crepr data = Inr (fn, m, es) \<Longrightarrow>
   \<exists>lang translation_lang. m = [(''lang'', lang), (''translation_lang'', translation_lang)] \<and>
     fn = phrasebooks_file_name crepr lang translation_lang"
  unfolding phrasebooks_batch_def rbind_Inr_iff by auto

lemma collect_dictionaries_merge_batches:
  "collect_dictionaries crepr parsed = merge_batches (dictionaries_batch crepr) [] parsed"
  by (simp add: collect_dictionaries_def dictionaries_loop_merge_batches)

lemma collect_phrasebooks_merge_batches:
  "collect_phrasebooks crepr parsed = merge_batches (phrasebooks_batch crepr) [] parsed"
  by (simp add: collect_phrasebooks_def phrasebooks_loop_merge_batches)

section \<open>What a file contributes\<close>

lemma list_comp_iff:
  "list_comp f xs = Inr ys \<longleftrightarrow> list_all2 (\<lambda>x y. f x = Inr y) xs ys"
proof
  assume "list_comp f xs = Inr ys"
  then show "list_all2 (\<lambda>x y. f x = Inr y) xs ys" by (rule list_comp_Inr)
next
  assume "list_all2 (\<lambda>x y. f x = Inr y) xs ys"
  then show "list_comp f xs = Inr ys"
    by (induction rule: list_all2_induct) simp_all
qed

lemma dictionaries_batch_iff:
  "dictionaries_batch crepr data = Inr (fn, m, es) \<longleftrightarrow>
   (\<exists>meta entries lang definition_lang raw ns.
      py_getitem data ''meta'' = Inr meta \<and> py_getitem data ''entries'' = Inr entries \<and>
      py_getitem meta ''lang'' = Inr lang \<and>
      py_getitem meta ''definition_lang'' = Inr definition_lang \<and>
      py_iter entries = Inr raw \<and>
      list_all2 (\<lambda>entry n. dictionaries_ensure_ordered_entry entry meta = Inr n) raw ns \<and>
      fn = dictionaries_file_name crepr lang definition_lang \<and>
      m = [(''lang'', lang), (''definition_lang'', definition_lang)] \<and>
      es = map JObj ns)"
  unfolding dictionaries_batch_def rbind_Inr_iff list_comp_iff by auto

lemma phrasebooks_batch_iff:
  "phrasebooks_batch crepr data = Inr (fn, m, es) \<longleftrightarrow>
   (\<exists>meta entries lang translation_lang raw ns.
      py_getitem data ''meta'' = Inr meta \<and> py_getitem data ''entries'' = Inr entries \<and>
      py_getitem meta ''lang'' = Inr lang \<and>
      py_getitem meta ''translation_lang'' = Inr translation_lang \<and>
      py_iter entries = Inr raw \<and>
      list_all2 (\<lambda>entry n. phrasebooks_ensure_ordered_entry entry meta = Inr n) raw ns \<and>
      fn = phrasebooks_file_name crepr lang translation_lang \<and>
      m = [(''lang'', lang), (''translation_lang'', translation_lang)] \<and>
      es = map JObj ns)"
  unfolding phrasebooks_batch_def rbind_Inr_iff list_comp_iff by auto

lemma merge_batches_all_succeed:
  "merge_batches batch md files = Inr md' \<Longrightarrow> data \<in> set files \<Longrightarrow>
   \<exists>fn m es. batch data = Inr (fn, m, es)"
proof (induction files arbitrary: md)
  case Nil
  then show ?case by simp
next
  case (Cons d files)
  from Cons.prems(1) obtain filename m es where b: "batch d = Inr (filename, m, es)"
    and rest: "merge_batches batch (extend_entries (set_meta md filename m) filename es) files = Inr md'"
    by (auto split: sum.splits)
  from Cons.prems(2) have "data = d \<or> data \<in> set files" by auto
  then show ?case
  proof
    assume "data = d"
    with b show ?thesis by simp
  next
    assume "data \<in> set files"
    from Cons.IH [OF rest this] show ?thesis .
  qed
qed

section \<open>The loop builds the expected aggregate\<close>

lemma keys_map_entry: "map fst (AList.map_entry k f xs) = map fst xs"
  by (induction xs) auto

lemma keys_getitem_default:
  "map fst (getitem_default md fn) =
     (if fn \<in> set (map fst md) then map fst md else map fst md @ [fn])"
  by (simp add: getitem_default_def map_of_eq_None_iff [symmetric] split: option.splits)

lemma keys_merge_step:
  "map fst (extend_entries (set_meta md fn m) fn es) =
     (if fn \<in> set (map fst md) then map fst md else map fst md @ [fn])"
  by (simp add: extend_entries_def set_meta_def keys_map_entry keys_getitem_default)

lemma merge_batches_key_order:
  "merge_batches batch md files = Inr md' \<Longrightarrow>
   map fst md' =
     map fst md @ filter (\<lambda>n. n \<notin> set (map fst md)) (appearance (file_names batch files))"
proof (induction files arbitrary: md)
  case Nil
  then show ?case by (simp add: file_names_def)
next
  case (Cons data files)
  from Cons.prems obtain filename m es where b: "batch data = Inr (filename, m, es)"
    and rest: "merge_batches batch (extend_entries (set_meta md filename m) filename es) files = Inr md'"
    by (auto split: sum.splits)
  have n: "file_names batch (data # files) = filename # file_names batch files"
    by (simp add: file_names_def b)
  show ?case
  proof (cases "filename \<in> set (map fst md)")
    case True
    then have "filter (\<lambda>n. n \<notin> set (map fst md)) (filter (\<lambda>y. y \<noteq> filename) xs) =
        filter (\<lambda>n. n \<notin> set (map fst md)) xs" for xs
      by (induction xs) auto
    with True Cons.IH [OF rest] show ?thesis
      by (simp add: n keys_merge_step)
  next
    case False
    have "filter (\<lambda>n. n \<notin> set (map fst md)) (filter (\<lambda>y. y \<noteq> filename) xs) =
        filter (\<lambda>n. n \<noteq> filename \<and> n \<notin> set (map fst md)) xs" for xs
      by (induction xs) auto
    with False Cons.IH [OF rest] show ?thesis
      by (simp add: n keys_merge_step)
  qed
qed

lemma meta_of_merge_step:
  "meta_of (extend_entries (set_meta md fn m) fn es) fn' = (if fn = fn' then m else meta_of md fn')"
  by (simp add: meta_of_def map_of_merge_step)

lemma merge_batches_meta:
  "merge_batches batch md files = Inr md' \<Longrightarrow>
   meta_of md' fn = (case rev (metas batch fn files) of [] \<Rightarrow> meta_of md fn | m # ms \<Rightarrow> m)"
proof (induction files arbitrary: md)
  case Nil
  then show ?case by (simp add: metas_def)
next
  case (Cons data files)
  from Cons.prems obtain filename m es where b: "batch data = Inr (filename, m, es)"
    and rest: "merge_batches batch (extend_entries (set_meta md filename m) filename es) files = Inr md'"
    by (auto split: sum.splits)
  have ms: "metas batch fn (data # files) =
      (if filename = fn then [m] else []) @ metas batch fn files"
    by (simp add: metas_def b)
  from Cons.IH [OF rest] show ?case
    by (cases "rev (metas batch fn files)") (simp_all add: ms meta_of_merge_step)
qed

lemma alist_by_keys:
  "distinct (map fst xs) \<Longrightarrow> xs = map (\<lambda>k. (k, the (map_of xs k))) (map fst xs)"
proof (induction xs)
  case Nil
  show ?case by simp
next
  case (Cons x xs)
  obtain k v where x: "x = (k, v)" by (cases x)
  from Cons.prems x have k: "k \<notin> fst ` set xs" and d: "distinct (map fst xs)" by auto
  from k have "map (\<lambda>k'. (k', the (map_of (x # xs) k'))) (map fst xs) =
      map (\<lambda>k'. (k', the (map_of xs k'))) (map fst xs)"
    by (auto simp: x)
  with Cons.IH [OF d] show ?case by (simp add: x)
qed

lemma merge_batches_expected:
  assumes "merge_batches batch [] files = Inr md"
  shows "md = expected_aggregate batch files"
proof -
  from merge_batches_distinct [OF assms] have d: "distinct (map fst md)" by simp
  from merge_batches_key_order [OF assms]
  have keys: "map fst md = appearance (file_names batch files)" by simp
  have "the (map_of md k) = expected_group batch files k" if "k \<in> set (map fst md)" for k
  proof -
    from that obtain g where g: "map_of md k = Some g"
      by (cases "map_of md k") (auto simp: map_of_eq_None_iff)
    from merge_batches_entries [OF assms, of k] g
    have e: "group_entries g = concat (map (contribution batch k) files)"
      by (simp add: entries_of_def)
    from merge_batches_meta [OF assms, of k] g
    have m: "group_meta g = (case rev (metas batch k files) of [] \<Rightarrow> [] | m # ms \<Rightarrow> m)"
      by (cases "rev (metas batch k files)") (simp_all add: meta_of_def)
    from e m g show ?thesis by (simp add: expected_group_def)
  qed
  then have "map (\<lambda>k. (k, the (map_of md k))) (map fst md) =
      map (\<lambda>k. (k, expected_group batch files k)) (map fst md)"
    by simp
  with alist_by_keys [OF d] have "md = map (\<lambda>k. (k, expected_group batch files k)) (map fst md)"
    by simp
  then show ?thesis by (simp add: expected_aggregate_def keys)
qed

section \<open>Facts about the write loop\<close>

lemma write_all_all_succeed:
  "\<forall>(filename, data) \<in> set md. io filename (dump (group_json data)) = None \<Longrightarrow>
   write_all io dump md log =
     (None, log @ map (\<lambda>(filename, data). (filename, dump (group_json data))) md)"
proof (induction md arbitrary: log)
  case Nil
  show ?case by simp
next
  case (Cons p md)
  obtain filename data where p: "p = (filename, data)" by (cases p)
  from Cons.prems p have "io filename (dump (group_json data)) = None"
    and "\<forall>(filename, data) \<in> set md. io filename (dump (group_json data)) = None"
    by auto
  with Cons.IH [of "log @ [(filename, dump (group_json data))]"] show ?case
    by (simp add: p)
qed

lemma write_all_from_empty:
  "write_all io dump md log = (fst (write_all io dump md []), log @ snd (write_all io dump md []))"
proof (induction md arbitrary: log)
  case Nil
  show ?case by simp
next
  case (Cons p md)
  obtain filename data where p: "p = (filename, data)" by (cases p)
  show ?case
  proof (cases "io filename (dump (group_json data))")
    case (Some e)
    then show ?thesis by (simp add: p)
  next
    case None
    from Cons.IH [of "log @ [(filename, dump (group_json data))]"]
      Cons.IH [of "[(filename, dump (group_json data))]"] None
    show ?thesis by (simp add: p)
  qed
qed

section \<open>The example files\<close>

lemma example_dictionary_batches:
  "map (dictionaries_batch example_repr) example_dictionary_files =
     [Inr (''dictionary_tgl_eng.json'', [(''lang'', JStr ''tgl''), (''definition_lang'', JStr ''eng'')],
           [JObj [(''word'', JStr ''aso'')], JObj [(''word'', JStr ''pusa'')]]),
      Inr (''dictionary_ceb_eng.json'', [(''lang'', JStr ''ceb''), (''definition_lang'', JStr ''eng'')],
           [JObj [(''word'', JStr ''iro'')]]),
      Inr (''dictionary_tgl_eng.json'', [(''lang'', JStr ''tgl''), (''definition_lang'', JStr ''eng'')],
           [JObj [(''word'', JStr ''pusa'')], JObj [(''word'', JStr ''ibon'')]])]"
  by (simp add: example_dictionary_files_def dictionaries_batch_def py_iter_def
      dictionaries_ensure_ordered_entry_def entry_definitions_def
      dictionaries_filter_empty_fields_def dictionaries_file_name_def py_format_def)

lemma example_phrasebook_batches:
  "map (phrasebooks_batch example_repr) example_phrasebook_files =
     [Inr (''phrasebook_tgl_eng.json'', [(''lang'', JStr ''tgl''), (''translation_lang'', JStr ''eng'')],
           [JObj [(''phrase'', JStr ''oo'')], JObj [(''phrase'', JStr ''hindi'')]]),
      Inr (''phrasebook_ceb_eng.json'', [(''lang'', JStr ''ceb''), (''translation_lang'', JStr ''eng'')],
           [JObj [(''phrase'', JStr ''oo'')]]),
      Inr (''phrasebook_tgl_eng.json'', [(''lang'', JStr ''tgl''), (''translation_lang'', JStr ''eng'')],
           [JObj [(''phrase'', JStr ''hindi'')], JObj [(''phrase'', JStr ''salamat'')]])]"
  by (simp add: example_phrasebook_files_def phrasebooks_batch_def py_iter_def
      phrasebooks_ensure_ordered_entry_def entry_translations_def
      phrasebooks_filter_empty_fields_def phrasebooks_file_name_def py_format_def)

lemma example_collect_dictionaries:
  "collect_dictionaries example_repr example_dictionary_files = Inr example_dictionary_aggregate"
  using example_dictionary_batches
  by (simp add: collect_dictionaries_merge_batches example_dictionary_files_def
      example_dictionary_aggregate_def set_meta_def extend_entries_def getitem_default_def)

lemma example_collect_phrasebooks:
  "collect_phrasebooks example_repr example_phrasebook_files = Inr example_phrasebook_aggregate"
  using example_phrasebook_batches
  by (simp add: collect_phrasebooks_merge_batches example_phrasebook_files_def
      example_phrasebook_aggregate_def set_meta_def extend_entries_def getitem_default_def)

section \<open>Grouping\<close>

lemma dictionaries_grouping:
  assumes c: "collect_dictionaries crepr (pre @ b1 # mid @ b2 # post) = Inr md"
    and m1: "py_getitem b1 ''meta'' = Inr meta1" and m2: "py_getitem b2 ''meta'' = Inr meta2"
    and l1: "py_getitem meta1 ''lang'' = Inr lang" and l2: "py_getitem meta2 ''lang'' = Inr lang"
    and s1: "py_getitem meta1 ''definition_lang'' = Inr definition_lang"
    and s2: "py_getitem meta2 ''definition_lang'' = Inr definition_lang"
    and e1: "py_getitem b1 ''entries'' = Inr entries1"
    and e2: "py_getitem b2 ''entries'' = Inr entries2"
    and r1: "py_iter entries1 = Inr raw1" and r2: "py_iter entries2 = Inr raw2"
  shows "\<exists>g ns1 ns2.
      map_of md (dictionaries_file_name crepr lang definition_lang) = Some g \<and>
      list_all2 (\<lambda>entry n. dictionaries_ensure_ordered_entry entry meta1 = Inr n) raw1 ns1 \<and>
      list_all2 (\<lambda>entry n. dictionaries_ensure_ordered_entry entry meta2 = Inr n) raw2 ns2 \<and>
      group_entries g =
        concat (map (contribution (dictionaries_batch crepr)
          (dictionaries_file_name crepr lang definition_lang)) pre) @ map JObj ns1 @
        concat (map (contribution (dictionaries_batch crepr)
          (dictionaries_file_name crepr lang definition_lang)) mid) @ map JObj ns2 @
        concat (map (contribution (dictionaries_batch crepr)
          (dictionaries_file_name crepr lang definition_lang)) post)"
proof -
  let ?fn = "dictionaries_file_name crepr lang definition_lang"
  let ?m = "[(''lang'', lang), (''definition_lang'', definition_lang)]"
  from c have m: "merge_batches (dictionaries_batch crepr) [] (pre @ b1 # mid @ b2 # post) = Inr md"
    by (simp add: collect_dictionaries_merge_batches)
  from merge_batches_all_succeed [OF m, of b1]
  obtain f1 k1 es1 where "dictionaries_batch crepr b1 = Inr (f1, k1, es1)" by auto
  with m1 l1 s1 e1 r1 obtain ns1
    where n1: "list_all2 (\<lambda>entry n. dictionaries_ensure_ordered_entry entry meta1 = Inr n) raw1 ns1"
      and b1: "dictionaries_batch crepr b1 = Inr (?fn, ?m, map JObj ns1)"
    unfolding dictionaries_batch_iff by auto
  from merge_batches_all_succeed [OF m, of b2]
  obtain f2 k2 es2 where "dictionaries_batch crepr b2 = Inr (f2, k2, es2)" by auto
  with m2 l2 s2 e2 r2 obtain ns2
    where n2: "list_all2 (\<lambda>entry n. dictionaries_ensure_ordered_entry entry meta2 = Inr n) raw2 ns2"
      and b2: "dictionaries_batch crepr b2 = Inr (?fn, ?m, map JObj ns2)"
    unfolding dictionaries_batch_iff by auto
  from merge_batches_grouping [OF m b1 b2] n1 n2 show ?thesis by blast
qed

lemma phrasebooks_grouping:
  assumes c: "collect_phrasebooks crepr (pre @ b1 # mid @ b2 # post) = Inr md"
    and m1: "py_getitem b1 ''meta'' = Inr meta1" and m2: "py_getitem b2 ''meta'' = Inr meta2"
    and l1: "py_getitem meta1 ''lang'' = Inr lang" and l2: "py_getitem meta2 ''lang'' = Inr lang"
    and s1: "py_getitem meta1 ''translation_lang'' = Inr translation_lang"
    and s2: "py_getitem meta2 ''translation_lang'' = Inr translation_lang"
    and e1: "py_getitem b1 ''entries'' = Inr entries1"
    and e2: "py_getitem b2 ''entries'' = Inr entries2"
    and r1: "py_iter entries1 = Inr raw1" and r2: "py_iter entries2 = Inr raw2"
  shows "\<exists>g ns1 ns2.
      map_of md (phrasebooks_file_name crepr lang translation_lang) = Some g \<and>
      list_all2 (\<lambda>entry n. phrasebooks_ensure_ordered_entry entry meta1 = Inr n) raw1 ns1 \<and>
      list_all2 (\<lambda>entry n. phrasebooks_ensure_ordered_entry entry meta2 = Inr n) raw2 ns2 \<and>
      group_entries g =
        concat (map (contribution (phrasebooks_batch crepr)
          (phrasebooks_file_name crepr lang translation_lang)) pre) @ map JObj ns1 @
        concat (map (contribution (phrasebooks_batch crepr)
          (phrasebooks_file_name crepr lang translation_lang)) mid) @ map JObj ns2 @
        concat (map (contribution (phrasebooks_batch crepr)
          (phrasebooks_file_name crepr lang translation_lang)) post)"
proof -
  let ?fn = "phrasebooks_file_name crepr lang translation_lang"
  let ?m = "[(''lang'', lang), (''translation_lang'', translation_lang)]"
  from c have m: "merge_batches (phrasebooks_batch crepr) [] (pre @ b1 # mid @ b2 # post) = Inr md"
    by (simp add: collect_phrasebooks_merge_batches)
  from merge_batches_all_succeed [OF m, of b1]
  obtain f1 k1 es1 where "phrasebooks_batch crepr b1 = Inr (f1, k1, es1)" by auto
  with m1 l1 s1 e1 r1 obtain ns1
    where n1: "list_all2 (\<lambda>entry n. phrasebooks_ensure_ordered_entry entry meta1 = Inr n) raw1 ns1"
      and b1: "phrasebooks_batch crepr b1 = Inr (?fn, ?m, map JObj ns1)"
    unfolding phrasebooks_batch_iff by auto
  from merge_batches_all_succeed [OF m, of b2]
  obtain f2 k2 es2 where "phrasebooks_batch crepr b2 = Inr (f2, k2, es2)" by auto
  with m2 l2 s2 e2 r2 obtain ns2
    where n2: "list_all2 (\<lambda>entry n. phrasebooks_ensure_ordered_entry entry meta2 = Inr n) raw2 ns2"
      and b2: "phrasebooks_batch crepr b2 = Inr (?fn, ?m, map JObj ns2)"
    unfolding phrasebooks_batch_iff by auto
  from merge_batches_grouping [OF m b1 b2] n1 n2 show ?thesis by blast
qed

text \<open>
  Claim C4. Let two files of a run that returns have metas with the same \<open>lang\<close> and the
  same secondary language, the first processed before the second, and let \<open>raw1\<close> and
  \<open>raw2\<close> be their raw entries. Then the aggregate has a group under the file name of that
  pair of languages, every raw entry of either file has a normalized entry (\<open>ns1\<close> and
  \<open>ns2\<close>, entry by entry, each normalized against the meta of its own file), and the entries
  of the group are, in this order: what the files processed before the first add to the group,
  the normalized entries of the first file in the order of its raw entries, what the files
  between the two add, the normalized entries of the second file in the order of its raw
  entries, and what the files after the second add. Nothing is merged or dropped, so equal
  entries of the two files stand side by side.
\<close>

theorem same_key_same_group:
  "(collect_dictionaries crepr (pre @ b1 # mid @ b2 # post) = Inr md \<longrightarrow>
    py_getitem b1 ''meta'' = Inr meta1 \<longrightarrow> py_getitem b2 ''meta'' = Inr meta2 \<longrightarrow>
    py_getitem meta1 ''lang'' = Inr lang \<longrightarrow> py_getitem meta2 ''lang'' = Inr lang \<longrightarrow>
    py_getitem meta1 ''definition_lang'' = Inr definition_lang \<longrightarrow>
    py_getitem meta2 ''definition_lang'' = Inr definition_lang \<longrightarrow>
    py_getitem b1 ''entries'' = Inr entries1 \<longrightarrow> py_getitem b2 ''entries'' = Inr entries2 \<longrightarrow>
    py_iter entries1 = Inr raw1 \<longrightarrow> py_iter entries2 = Inr raw2 \<longrightarrow>
      (\<exists>g ns1 ns2.
        map_of md (dictionaries_file_name crepr lang definition_lang) = Some g \<and>
        list_all2 (\<lambda>entry n. dictionaries_ensure_ordered_entry entry meta1 = Inr n) raw1 ns1 \<and>
        list_all2 (\<lambda>entry n. dictionaries_ensure_ordered_entry entry meta2 = Inr n) raw2 ns2 \<and>
        group_entries g =
          concat (map (contribution (dictionaries_batch crepr)
            (dictionaries_file_name crepr lang definition_lang)) pre) @ map JObj ns1 @
          concat (map (contribution (dictionaries_batch crepr)
            (dictionaries_file_name crepr lang definition_lang)) mid) @ map JObj ns2 @
          concat (map (contribution (dictionaries_batch crepr)
            (dictionaries_file_name crepr lang definition_lang)) post))) \<and>
   (collect_phrasebooks crepr' (pre' @ b1' # mid' @ b2' # post') = Inr md' \<longrightarrow>
    py_getitem b1' ''meta'' = Inr meta1' \<longrightarrow> py_getitem b2' ''meta'' = Inr meta2' \<longrightarrow>
    py_getitem meta1' ''lang'' = Inr lang' \<longrightarrow> py_getitem meta2' ''lang'' = Inr lang' \<longrightarrow>
    py_getitem meta1' ''translation_lang'' = Inr translation_lang \<longrightarrow>
    py_getitem meta2' ''translation_lang'' = Inr translation_lang \<longrightarrow>
    py_getitem b1' ''entries'' = Inr entries1' \<longrightarrow> py_getitem b2' ''entries'' = Inr entries2' \<longrightarrow>
    py_iter entries1' = Inr raw1' \<longrightarrow> py_iter entries2' = Inr raw2' \<longrightarrow>
      (\<exists>g ns1 ns2.
        map_of md' (phrasebooks_file_name crepr' lang' translation_lang) = Some g \<and>
        list_all2 (\<lambda>entry n. phrasebooks_ensure_ordered_entry entry meta1' = Inr n) raw1' ns1 \<and>
        list_all2 (\<lambda>entry n. phrasebooks_ensure_ordered_entry entry meta2' = Inr n) raw2' ns2 \<and>
        group_entries g =
          concat (map (contribution (phrasebooks_batch crepr')
            (phrasebooks_file_name crepr' lang' translation_lang)) pre') @ map JObj ns1 @
          concat (map (contribution (phrasebooks_batch crepr')
            (phrasebooks_file_name crepr' lang' translation_lang)) mid') @ map JObj ns2 @
          concat (map (contribution (phrasebooks_batch crepr')
            (phrasebooks_file_name crepr' lang' translation_lang)) post')))"
  apply (intro conjI impI)
   apply (erule (10) dictionaries_grouping)
  apply (erule (10) phrasebooks_grouping)
  done
text \<open>
  The example files: the first and the third have two entries each and the same pair of
  languages, and \<open>pusa\<close> is in both. The group has the four entries, \<open>pusa\<close> twice,
  and not the entry of the second file. The same for phrasebooks.
\<close>

theorem same_key_same_group_witness:
  "collect_dictionaries example_repr example_dictionary_files = Inr example_dictionary_aggregate \<and>
   (\<exists>g. map_of example_dictionary_aggregate ''dictionary_tgl_eng.json'' = Some g \<and>
     group_entries g =
       [JObj [(''word'', JStr ''aso'')], JObj [(''word'', JStr ''pusa'')],
        JObj [(''word'', JStr ''pusa'')], JObj [(''word'', JStr ''ibon'')]]) \<and>
   collect_phrasebooks example_repr example_phrasebook_files = Inr example_phrasebook_aggregate \<and>
   (\<exists>g. map_of example_phrasebook_aggregate ''phrasebook_tgl_eng.json'' = Some g \<and>
     group_entries g =
       [JObj [(''phrase'', JStr ''oo'')], JObj [(''phrase'', JStr ''hindi'')],
        JObj [(''phrase'', JStr ''hindi'')], JObj [(''phrase'', JStr ''salamat'')]])"
proof -
  let ?md = "JObj [(''lang'', JStr ''tgl''), (''definition_lang'', JStr ''eng'')]"
  let ?d1 = "[JObj [(''word'', JStr ''aso'')], JObj [(''word'', JStr ''pusa'')]]"
  let ?d2 = "[JObj [(''word'', JStr ''pusa'')], JObj [(''word'', JStr ''ibon'')]]"
  let ?dc = "JObj [(''meta'', JObj [(''lang'', JStr ''ceb''), (''definition_lang'', JStr ''eng'')]),
            (''entries'', JList [JObj [(''word'', JStr ''iro'')]])]"
  let ?mp = "JObj [(''lang'', JStr ''tgl''), (''translation_lang'', JStr ''eng'')]"
  let ?p1 = "[JObj [(''phrase'', JStr ''oo''), (''translations'', JList [])],
              JObj [(''phrase'', JStr ''hindi''), (''translations'', JList [])]]"
  let ?p2 = "[JObj [(''phrase'', JStr ''hindi''), (''translations'', JList [])],
              JObj [(''phrase'', JStr ''salamat''), (''translations'', JList [])]]"
  let ?pc = "JObj [(''meta'', JObj [(''lang'', JStr ''ceb''), (''translation_lang'', JStr ''eng'')]),
            (''entries'', JList [JObj [(''phrase'', JStr ''oo''), (''translations'', JList [])]])]"
  have fd: "example_dictionary_files =
      [] @ JObj [(''meta'', ?md), (''entries'', JList ?d1)] # [?dc] @
        JObj [(''meta'', ?md), (''entries'', JList ?d2)] # []"
    by (simp add: example_dictionary_files_def)
  have fp: "example_phrasebook_files =
      [] @ JObj [(''meta'', ?mp), (''entries'', JList ?p1)] # [?pc] @
        JObj [(''meta'', ?mp), (''entries'', JList ?p2)] # []"
    by (simp add: example_phrasebook_files_def)
  from same_key_same_group [THEN conjunct1, rule_format,
      OF example_collect_dictionaries [unfolded fd],
      of ?md ?md "JStr ''tgl''" "JStr ''eng''" "JList ?d1" "JList ?d2" ?d1 ?d2]
  have d: "\<exists>g. map_of example_dictionary_aggregate ''dictionary_tgl_eng.json'' = Some g \<and>
     group_entries g =
       [JObj [(''word'', JStr ''aso'')], JObj [(''word'', JStr ''pusa'')],
        JObj [(''word'', JStr ''pusa'')], JObj [(''word'', JStr ''ibon'')]]"
    by (simp add: py_iter_def dictionaries_file_name_def py_format_def list_all2_Cons1
        dictionaries_ensure_ordered_entry_def entry_definitions_def
        dictionaries_filter_empty_fields_def contribution_def dictionaries_batch_def)
  from same_key_same_group [THEN conjunct2, rule_format,
      OF example_collect_phrasebooks [unfolded fp],
      of ?mp ?mp "JStr ''tgl''" "JStr ''eng''" "JList ?p1" "JList ?p2" ?p1 ?p2]
  have p: "\<exists>g. map_of example_phrasebook_aggregate ''phrasebook_tgl_eng.json'' = Some g \<and>
     group_entries g =
       [JObj [(''phrase'', JStr ''oo'')], JObj [(''phrase'', JStr ''hindi'')],
        JObj [(''phrase'', JStr ''hindi'')], JObj [(''phrase'', JStr ''salamat'')]]"
    by (simp add: py_iter_def phrasebooks_file_name_def py_format_def list_all2_Cons1
        phrasebooks_ensure_ordered_entry_def entry_translations_def
        phrasebooks_filter_empty_fields_def contribution_def phrasebooks_batch_def)
  from d p example_collect_dictionaries example_collect_phrasebooks show ?thesis by simp
qed

section \<open>An entry that cannot be normalized\<close>

text \<open>
  Claim C5, as stated, fails: neither collector catches an exception. A batch of three
  entries, the second with a \<open>definitions\<close> value that is not a list of objects, ends
  \<open>collect_dictionaries\<close> with \<open>AttributeError\<close>: there is no aggregate, and so no
  group that holds the first and the third entry.
\<close>

theorem failing_entry_counterexample:
  "collect_dictionaries example_repr
     [JObj [(''meta'', JObj [(''lang'', JStr ''tgl''), (''definition_lang'', JStr ''eng''),
                            (''source_title'', JStr ''S1'')]),
            (''entries'', JList
               [JObj [(''word'', JStr ''aso'')],
                JObj [(''word'', JStr ''pusa''), (''definitions'', JList [JStr ''cat''])],
                JObj [(''word'', JStr ''ibon'')]])]]
     = Inl AttributeError"
  by (simp add: collect_dictionaries_merge_batches dictionaries_batch_def py_iter_def
      dictionaries_ensure_ordered_entry_def entry_definitions_def ensure_ordered_definition_def
      py_get_def dictionaries_filter_empty_fields_def)

text \<open>
  Claim C5, amended. When one entry of one file of a run fails normalization, the entry is
  not skipped: the collector ends with an exception and returns no aggregate, and \<open>main\<close>
  ends with that exception before it writes any file, whatever the operating system would
  answer, for dictionaries and for phrasebooks.
\<close>

theorem failing_entry_aborts_run:
  "(data \<in> set parsed \<longrightarrow>
    py_getitem data ''meta'' = Inr meta \<longrightarrow>
    py_getitem data ''entries'' = Inr entries \<longrightarrow>
    py_iter entries = Inr es \<longrightarrow>
    entry \<in> set es \<longrightarrow>
    dictionaries_ensure_ordered_entry entry meta = Inl err \<longrightarrow>
      (\<exists>e. collect_dictionaries crepr parsed = Inl e \<and>
           dictionaries_main io crepr dump parsed log = (Some e, log))) \<and>
   (data' \<in> set parsed' \<longrightarrow>
    py_getitem data' ''meta'' = Inr meta' \<longrightarrow>
    py_getitem data' ''entries'' = Inr entries' \<longrightarrow>
    py_iter entries' = Inr es' \<longrightarrow>
    entry' \<in> set es' \<longrightarrow>
    phrasebooks_ensure_ordered_entry entry' meta' = Inl err' \<longrightarrow>
      (\<exists>e. collect_phrasebooks crepr' parsed' = Inl e \<and>
           phrasebooks_main io' crepr' dump' parsed' log' = (Some e, log')))"
proof (intro conjI impI)
  assume "data \<in> set parsed" and "py_getitem data ''meta'' = Inr meta"
    and "py_getitem data ''entries'' = Inr entries" and "py_iter entries = Inr es"
    and "entry \<in> set es" and "dictionaries_ensure_ordered_entry entry meta = Inl err"
  from dictionaries_batch_fails [OF this(2-6)]
  obtain e where "dictionaries_batch crepr data = Inl e" ..
  from merge_batches_fails [where batch = "dictionaries_batch crepr" and md = "[]",
      OF \<open>data \<in> set parsed\<close> this]
  obtain e' where "collect_dictionaries crepr parsed = Inl e'"
    unfolding collect_dictionaries_merge_batches ..
  then show "\<exists>e. collect_dictionaries crepr parsed = Inl e \<and>
      dictionaries_main io crepr dump parsed log = (Some e, log)"
    by (simp add: dictionaries_main_def)
next
  assume "data' \<in> set parsed'" and "py_getitem data' ''meta'' = Inr meta'"
    and "py_getitem data' ''entries'' = Inr entries'" and "py_iter entries' = Inr es'"
    and "entry' \<in> set es'" and "phrasebooks_ensure_ordered_entry entry' meta' = Inl err'"
  from phrasebooks_batch_fails [OF this(2-6)]
  obtain e where "phrasebooks_batch crepr' data' = Inl e" ..
  from merge_batches_fails [where batch = "phrasebooks_batch crepr'" and md = "[]",
      OF \<open>data' \<in> set parsed'\<close> this]
  obtain e' where "collect_phrasebooks crepr' parsed' = Inl e'"
    unfolding collect_phrasebooks_merge_batches ..
  then show "\<exists>e. collect_phrasebooks crepr' parsed' = Inl e \<and>
      phrasebooks_main io' crepr' dump' parsed' log' = (Some e, log')"
    by (simp add: phrasebooks_main_def)
qed

theorem failing_entry_aborts_run_witness:
  "(\<exists>e. collect_dictionaries example_repr
       [JObj [(''meta'', JObj [(''lang'', JStr ''tgl''), (''definition_lang'', JStr ''eng'')]),
              (''entries'', JList [JObj [(''word'', JStr ''aso'')], JStr ''pusa''])]] = Inl e \<and>
     dictionaries_main example_io example_repr example_dump
       [JObj [(''meta'', JObj [(''lang'', JStr ''tgl''), (''definition_lang'', JStr ''eng'')]),
              (''entries'', JList [JObj [(''word'', JStr ''aso'')], JStr ''pusa''])]]
       [] = (Some e, [])) \<and>
   (\<exists>e. collect_phrasebooks example_repr
       [JObj [(''meta'', JObj [(''lang'', JStr ''tgl''), (''translation_lang'', JStr ''eng'')]),
              (''entries'', JList [JObj [(''phrase'', JStr ''oo'')]])]] = Inl e \<and>
     phrasebooks_main example_io example_repr example_dump
       [JObj [(''meta'', JObj [(''lang'', JStr ''tgl''), (''translation_lang'', JStr ''eng'')]),
              (''entries'', JList [JObj [(''phrase'', JStr ''oo'')]])]]
       [] = (Some e, []))"
proof -
  let ?D = "JObj [(''meta'', JObj [(''lang'', JStr ''tgl''), (''definition_lang'', JStr ''eng'')]),
              (''entries'', JList [JObj [(''word'', JStr ''aso'')], JStr ''pusa''])]"
  let ?P = "JObj [(''meta'', JObj [(''lang'', JStr ''tgl''), (''translation_lang'', JStr ''eng'')]),
              (''entries'', JList [JObj [(''phrase'', JStr ''oo'')]])]"
  have d: "dictionaries_ensure_ordered_entry (JStr ''pusa'')
      (JObj [(''lang'', JStr ''tgl''), (''definition_lang'', JStr ''eng'')]) = Inl AttributeError"
    by (simp add: dictionaries_ensure_ordered_entry_def entry_definitions_def py_get_def)
  have p: "phrasebooks_ensure_ordered_entry (JObj [(''phrase'', JStr ''oo'')])
      (JObj [(''lang'', JStr ''tgl''), (''translation_lang'', JStr ''eng'')]) = Inl TypeError"
    by (simp add: phrasebooks_ensure_ordered_entry_def entry_translations_def py_iter_def)
  from failing_entry_aborts_run [THEN conjunct1, rule_format,
      of ?D "[?D]" "JObj [(''lang'', JStr ''tgl''), (''definition_lang'', JStr ''eng'')]"
         "JList [JObj [(''word'', JStr ''aso'')], JStr ''pusa'']"
         "[JObj [(''word'', JStr ''aso'')], JStr ''pusa'']" "JStr ''pusa''" AttributeError
         example_repr example_io example_dump "[]"]
    failing_entry_aborts_run [THEN conjunct2, rule_format,
      of ?P "[?P]" "JObj [(''lang'', JStr ''tgl''), (''translation_lang'', JStr ''eng'')]"
         "JList [JObj [(''phrase'', JStr ''oo'')]]"
         "[JObj [(''phrase'', JStr ''oo'')]]" "JObj [(''phrase'', JStr ''oo'')]" TypeError
         example_repr example_io example_dump "[]"]
    d p
  show ?thesis by (simp add: py_iter_def)
qed

section \<open>Groups without entries\<close>

lemma written_group:
  assumes "map_of md fn = Some g" and "group_entries g = []"
  shows "(fn, dump (JObj [(''meta'', JObj (group_meta g)), (''entries'', JList [])])) \<in>
     set (map (\<lambda>(filename, data). (filename, dump (group_json data))) md)"
proof -
  from assms(1) have "(fn, g) \<in> set md" by (rule map_of_SomeD)
  then have "(fn, dump (group_json g)) \<in>
      set (map (\<lambda>(filename, data). (filename, dump (group_json data))) md)"
    by force
  with assms(2) show ?thesis by (simp add: group_json_def)
qed

text \<open>
  Claim C6, as stated, fails: a file whose \<open>entries\<close> list is empty still creates its
  group, and \<open>main\<close> writes every group of the aggregate. Here the aggregate has the group
  with no entries, and \<open>main\<close>, every write succeeding, writes its file, with an empty
  \<open>entries\<close> list.
\<close>

theorem empty_group_counterexample:
  "collect_dictionaries example_repr
     [JObj [(''meta'', JObj [(''lang'', JStr ''tgl''), (''definition_lang'', JStr ''eng'')]),
            (''entries'', JList [])]]
     = Inr [(''dictionary_tgl_eng.json'',
             \<lparr>group_meta = [(''lang'', JStr ''tgl''), (''definition_lang'', JStr ''eng'')],
              group_entries = []\<rparr>)] \<and>
   dictionaries_main example_io example_repr example_dump
     [JObj [(''meta'', JObj [(''lang'', JStr ''tgl''), (''definition_lang'', JStr ''eng'')]),
            (''entries'', JList [])]] []
     = (None, [(''dictionary_tgl_eng.json'', example_dump (JObj
         [(''meta'', JObj [(''lang'', JStr ''tgl''), (''definition_lang'', JStr ''eng'')]),
          (''entries'', JList [])]))])"
proof -
  have c: "collect_dictionaries example_repr
     [JObj [(''meta'', JObj [(''lang'', JStr ''tgl''), (''definition_lang'', JStr ''eng'')]),
            (''entries'', JList [])]]
     = Inr [(''dictionary_tgl_eng.json'',
             \<lparr>group_meta = [(''lang'', JStr ''tgl''), (''definition_lang'', JStr ''eng'')],
              group_entries = []\<rparr>)]"
    by (simp add: collect_dictionaries_merge_batches dictionaries_batch_def py_iter_def
        dictionaries_file_name_def py_format_def set_meta_def extend_entries_def
        getitem_default_def)
  show ?thesis
    by (simp add: c dictionaries_main_def example_io_def group_json_def)
qed

text \<open>
  Claim C6, amended. A group whose entry list ends up with zero entries is not an error,
  and it is written like every other group. When the collector returns an aggregate with
  such a group and the operating system lets every write of the run succeed, the run ends
  without exception, it completes one write for every group of the aggregate, in the order of
  the aggregate, and among them is the write, under the file name of the group, of the dump of
  the group's meta and an empty \<open>entries\<close> list.
\<close>

theorem empty_group_is_written:
  "(collect_dictionaries crepr parsed = Inr md \<longrightarrow>
    map_of md fn = Some g \<longrightarrow>
    group_entries g = [] \<longrightarrow>
    (\<forall>(filename, data) \<in> set md. io filename (dump (group_json data)) = None) \<longrightarrow>
      dictionaries_main io crepr dump parsed log =
        (None, log @ map (\<lambda>(filename, data). (filename, dump (group_json data))) md) \<and>
      (fn, dump (JObj [(''meta'', JObj (group_meta g)), (''entries'', JList [])])) \<in>
        set (map (\<lambda>(filename, data). (filename, dump (group_json data))) md)) \<and>
   (collect_phrasebooks crepr' parsed' = Inr md' \<longrightarrow>
    map_of md' fn' = Some g' \<longrightarrow>
    group_entries g' = [] \<longrightarrow>
    (\<forall>(filename, data) \<in> set md'. io' filename (dump' (group_json data)) = None) \<longrightarrow>
      phrasebooks_main io' crepr' dump' parsed' log' =
        (None, log' @ map (\<lambda>(filename, data). (filename, dump' (group_json data))) md') \<and>
      (fn', dump' (JObj [(''meta'', JObj (group_meta g')), (''entries'', JList [])])) \<in>
        set (map (\<lambda>(filename, data). (filename, dump' (group_json data))) md'))"
proof (intro conjI impI)
  assume c: "collect_dictionaries crepr parsed = Inr md"
    and g: "map_of md fn = Some g" and e: "group_entries g = []"
    and w: "\<forall>(filename, data) \<in> set md. io filename (dump (group_json data)) = None"
  from c write_all_all_succeed [OF w, of log]
  show "dictionaries_main io crepr dump parsed log =
      (None, log @ map (\<lambda>(filename, data). (filename, dump (group_json data))) md)"
    by (simp add: dictionaries_main_def)
  from g e show "(fn, dump (JObj [(''meta'', JObj (group_meta g)), (''entries'', JList [])])) \<in>
      set (map (\<lambda>(filename, data). (filename, dump (group_json data))) md)"
    by (rule written_group)
next
  assume c: "collect_phrasebooks crepr' parsed' = Inr md'"
    and g: "map_of md' fn' = Some g'" and e: "group_entries g' = []"
    and w: "\<forall>(filename, data) \<in> set md'. io' filename (dump' (group_json data)) = None"
  from c write_all_all_succeed [OF w, of log']
  show "phrasebooks_main io' crepr' dump' parsed' log' =
      (None, log' @ map (\<lambda>(filename, data). (filename, dump' (group_json data))) md')"
    by (simp add: phrasebooks_main_def)
  from g e show "(fn', dump' (JObj [(''meta'', JObj (group_meta g')), (''entries'', JList [])])) \<in>
      set (map (\<lambda>(filename, data). (filename, dump' (group_json data))) md')"
    by (rule written_group)
qed

text \<open>
  A dictionary file and a phrasebook file without entries, run after one earlier write: the
  run ends without exception and appends the write of the group without entries.
\<close>

theorem empty_group_is_written_witness:
  "dictionaries_main example_io example_repr example_dump
     [JObj [(''meta'', JObj [(''lang'', JStr ''tgl''), (''definition_lang'', JStr ''eng'')]),
            (''entries'', JList [])]] [(''earlier.json'', ''{}'')] =
     (None,
      [(''earlier.json'', ''{}''),
       (''dictionary_tgl_eng.json'', example_dump (JObj
         [(''meta'', JObj [(''lang'', JStr ''tgl''), (''definition_lang'', JStr ''eng'')]),
          (''entries'', JList [])]))]) \<and>
   phrasebooks_main example_io example_repr example_dump
     [JObj [(''meta'', JObj [(''lang'', JStr ''tgl''), (''translation_lang'', JStr ''eng'')]),
            (''entries'', JList [])]] [(''earlier.json'', ''{}'')] =
     (None,
      [(''earlier.json'', ''{}''),
       (''phrasebook_tgl_eng.json'', example_dump (JObj
         [(''meta'', JObj [(''lang'', JStr ''tgl''), (''translation_lang'', JStr ''eng'')]),
          (''entries'', JList [])]))])"
proof -
  have d: "collect_dictionaries example_repr
     [JObj [(''meta'', JObj [(''lang'', JStr ''tgl''), (''definition_lang'', JStr ''eng'')]),
            (''entries'', JList [])]]
     = Inr [(''dictionary_tgl_eng.json'',
             \<lparr>group_meta = [(''lang'', JStr ''tgl''), (''definition_lang'', JStr ''eng'')],
              group_entries = []\<rparr>)]"
    by (simp add: collect_dictionaries_merge_batches dictionaries_batch_def py_iter_def
        dictionaries_file_name_def py_format_def set_meta_def extend_entries_def
        getitem_default_def)
  have p: "collect_phrasebooks example_repr
     [JObj [(''meta'', JObj [(''lang'', JStr ''tgl''), (''translation_lang'', JStr ''eng'')]),
            (''entries'', JList [])]]
     = Inr [(''phrasebook_tgl_eng.json'',
             \<lparr>group_meta = [(''lang'', JStr ''tgl''), (''translation_lang'', JStr ''eng'')],
              group_entries = []\<rparr>)]"
    by (simp add: collect_phrasebooks_merge_batches phrasebooks_batch_def py_iter_def
        phrasebooks_file_name_def py_format_def set_meta_def extend_entries_def
        getitem_default_def)
  from empty_group_is_written [THEN conjunct1, rule_format, OF d,
        of "''dictionary_tgl_eng.json''"
        "\<lparr>group_meta = [(''lang'', JStr ''tgl''), (''definition_lang'', JStr ''eng'')],
          group_entries = []\<rparr>" example_io example_dump "[(''earlier.json'', ''{}'')]"]
    empty_group_is_written [THEN conjunct2, rule_format, OF p,
        of "''phrasebook_tgl_eng.json''"
        "\<lparr>group_meta = [(''lang'', JStr ''tgl''), (''translation_lang'', JStr ''eng'')],
          group_entries = []\<rparr>" example_io example_dump "[(''earlier.json'', ''{}'')]"]
  show ?thesis by (simp add: example_io_def group_json_def)
qed

section \<open>Running twice\<close>

lemma dictionaries_main_from_empty:
  "dictionaries_main io crepr dump parsed log =
     (fst (dictionaries_main io crepr dump parsed []),
      log @ snd (dictionaries_main io crepr dump parsed []))"
proof (cases "collect_dictionaries crepr parsed")
  case (Inl e)
  then show ?thesis by (simp add: dictionaries_main_def)
next
  case (Inr md)
  with write_all_from_empty [of io dump md log] show ?thesis
    by (simp add: dictionaries_main_def)
qed

lemma phrasebooks_main_from_empty:
  "phrasebooks_main io crepr dump parsed log =
     (fst (phrasebooks_main io crepr dump parsed []),
      log @ snd (phrasebooks_main io crepr dump parsed []))"
proof (cases "collect_phrasebooks crepr parsed")
  case (Inl e)
  then show ?thesis by (simp add: phrasebooks_main_def)
next
  case (Inr md)
  with write_all_from_empty [of io dump md log] show ?thesis
    by (simp add: phrasebooks_main_def)
qed

lemma dictionaries_main_expected:
  assumes c: "collect_dictionaries crepr parsed = Inr md"
  shows "md = expected_aggregate (dictionaries_batch crepr) parsed \<and>
    ((\<forall>(filename, data) \<in> set md. io filename (dump (group_json data)) = None) \<longrightarrow>
      dictionaries_main io crepr dump parsed [] =
        (None, map (\<lambda>(filename, data). (filename, dump (group_json data)))
           (expected_aggregate (dictionaries_batch crepr) parsed)))"
proof (intro conjI impI)
  from c show e: "md = expected_aggregate (dictionaries_batch crepr) parsed"
    unfolding collect_dictionaries_merge_batches by (rule merge_batches_expected)
  assume "\<forall>(filename, data) \<in> set md. io filename (dump (group_json data)) = None"
  from write_all_all_succeed [OF this, of "[]"] c
  have "dictionaries_main io crepr dump parsed [] =
      (None, map (\<lambda>(filename, data). (filename, dump (group_json data))) md)"
    by (simp add: dictionaries_main_def)
  then show "dictionaries_main io crepr dump parsed [] =
      (None, map (\<lambda>(filename, data). (filename, dump (group_json data)))
         (expected_aggregate (dictionaries_batch crepr) parsed))"
    unfolding e [symmetric] .
qed

lemma phrasebooks_main_expected:
  assumes c: "collect_phrasebooks crepr parsed = Inr md"
  shows "md = expected_aggregate (phrasebooks_batch crepr) parsed \<and>
    ((\<forall>(filename, data) \<in> set md. io filename (dump (group_json data)) = None) \<longrightarrow>
      phrasebooks_main io crepr dump parsed [] =
        (None, map (\<lambda>(filename, data). (filename, dump (group_json data)))
           (expected_aggregate (phrasebooks_batch crepr) parsed)))"
proof (intro conjI impI)
  from c show e: "md = expected_aggregate (phrasebooks_batch crepr) parsed"
    unfolding collect_phrasebooks_merge_batches by (rule merge_batches_expected)
  assume "\<forall>(filename, data) \<in> set md. io filename (dump (group_json data)) = None"
  from write_all_all_succeed [OF this, of "[]"] c
  have "phrasebooks_main io crepr dump parsed [] =
      (None, map (\<lambda>(filename, data). (filename, dump (group_json data))) md)"
    by (simp add: phrasebooks_main_def)
  then show "phrasebooks_main io crepr dump parsed [] =
      (None, map (\<lambda>(filename, data). (filename, dump (group_json data)))
         (expected_aggregate (phrasebooks_batch crepr) parsed))"
    unfolding e [symmetric] .
qed

text \<open>
  Claim C9. The output of a run is fixed by the sequence of loaded files, the library
  functions and the answers of the operating system, and it is the following.

  A run appends to the writes made before it the writes that a run after no writes completes,
  and ends as that run ends; so a second run over the same sequence of files, with the same
  answers of the operating system, appends the same writes in the same order once more.

  When the collector returns, its aggregate is the expected aggregate of the sequence: the
  keys are the file names of the files in the order of their first appearance, the meta of a
  group is the meta of the last file with its name, and the entries of a group are the
  normalized entries of the files with its name, in the order of the files and, inside a
  file, of its entries. When moreover every write succeeds, the run ends without exception
  and writes, in that order, each file name of the expected aggregate with the dump of the
  dict of \<open>meta\<close> and \<open>entries\<close> of its group.
\<close>

theorem rerun_same_output:
  "dictionaries_main io crepr dump parsed log =
     (fst (dictionaries_main io crepr dump parsed []),
      log @ snd (dictionaries_main io crepr dump parsed [])) \<and>
   dictionaries_main io crepr dump parsed (snd (dictionaries_main io crepr dump parsed log)) =
     (fst (dictionaries_main io crepr dump parsed []),
      log @ snd (dictionaries_main io crepr dump parsed []) @
        snd (dictionaries_main io crepr dump parsed [])) \<and>
   (collect_dictionaries crepr parsed = Inr md \<longrightarrow>
      md = expected_aggregate (dictionaries_batch crepr) parsed \<and>
      ((\<forall>(filename, data) \<in> set md. io filename (dump (group_json data)) = None) \<longrightarrow>
        dictionaries_main io crepr dump parsed [] =
          (None, map (\<lambda>(filename, data). (filename, dump (group_json data)))
             (expected_aggregate (dictionaries_batch crepr) parsed)))) \<and>
   phrasebooks_main io crepr dump parsed log =
     (fst (phrasebooks_main io crepr dump parsed []),
      log @ snd (phrasebooks_main io crepr dump parsed [])) \<and>
   phrasebooks_main io crepr dump parsed (snd (phrasebooks_main io crepr dump parsed log)) =
     (fst (phrasebooks_main io crepr dump parsed []),
      log @ snd (phrasebooks_main io crepr dump parsed []) @
        snd (phrasebooks_main io crepr dump parsed [])) \<and>
   (collect_phrasebooks crepr parsed = Inr md' \<longrightarrow>
      md' = expected_aggregate (phrasebooks_batch crepr) parsed \<and>
      ((\<forall>(filename, data) \<in> set md'. io filename (dump (group_json data)) = None) \<longrightarrow>
        phrasebooks_main io crepr dump parsed [] =
          (None, map (\<lambda>(filename, data). (filename, dump (group_json data)))
             (expected_aggregate (phrasebooks_batch crepr) parsed))))"
proof (intro conjI)
  show "dictionaries_main io crepr dump parsed log =
     (fst (dictionaries_main io crepr dump parsed []),
      log @ snd (dictionaries_main io crepr dump parsed []))"
    by (rule dictionaries_main_from_empty)
  show "dictionaries_main io crepr dump parsed (snd (dictionaries_main io crepr dump parsed log)) =
     (fst (dictionaries_main io crepr dump parsed []),
      log @ snd (dictionaries_main io crepr dump parsed []) @
        snd (dictionaries_main io crepr dump parsed []))"
    using dictionaries_main_from_empty [of io crepr dump parsed log]
      dictionaries_main_from_empty [of io crepr dump parsed
        "snd (dictionaries_main io crepr dump parsed log)"]
    by (metis append.assoc snd_conv)
  show "collect_dictionaries crepr parsed = Inr md \<longrightarrow>
      md = expected_aggregate (dictionaries_batch crepr) parsed \<and>
      ((\<forall>(filename, data) \<in> set md. io filename (dump (group_json data)) = None) \<longrightarrow>
        dictionaries_main io crepr dump parsed [] =
          (None, map (\<lambda>(filename, data). (filename, dump (group_json data)))
             (expected_aggregate (dictionaries_batch crepr) parsed)))"
    by (rule impI) (rule dictionaries_main_expected)
  show "phrasebooks_main io crepr dump parsed log =
     (fst (phrasebooks_main io crepr dump parsed []),
      log @ snd (phrasebooks_main io crepr dump parsed []))"
    by (rule phrasebooks_main_from_empty)
  show "phrasebooks_main io crepr dump parsed (snd (phrasebooks_main io crepr dump parsed log)) =
     (fst (phrasebooks_main io crepr dump parsed []),
      log @ snd (phrasebooks_main io crepr dump parsed []) @
        snd (phrasebooks_main io crepr dump parsed []))"
    using phrasebooks_main_from_empty [of io crepr dump parsed log]
      phrasebooks_main_from_empty [of io crepr dump parsed
        "snd (phrasebooks_main io crepr dump parsed log)"]
    by (metis append.assoc snd_conv)
  show "collect_phrasebooks crepr parsed = Inr md' \<longrightarrow>
      md' = expected_aggregate (phrasebooks_batch crepr) parsed \<and>
      ((\<forall>(filename, data) \<in> set md'. io filename (dump (group_json data)) = None) \<longrightarrow>
        phrasebooks_main io crepr dump parsed [] =
          (None, map (\<lambda>(filename, data). (filename, dump (group_json data)))
             (expected_aggregate (phrasebooks_batch crepr) parsed)))"
    by (rule impI) (rule phrasebooks_main_expected)
qed

text \<open>
  The example files, every write succeeding: the aggregate of the collector is the expected
  aggregate, with the group of the first file first, and the run writes the two groups in
  that order.
\<close>

theorem rerun_same_output_witness:
  "expected_aggregate (dictionaries_batch example_repr) example_dictionary_files =
     example_dictionary_aggregate \<and>
   dictionaries_main example_io example_repr example_dump example_dictionary_files [] =
     (None,
      [(''dictionary_tgl_eng.json'', example_dump (JObj
         [(''meta'', JObj [(''lang'', JStr ''tgl''), (''definition_lang'', JStr ''eng'')]),
          (''entries'', JList
             [JObj [(''word'', JStr ''aso'')], JObj [(''word'', JStr ''pusa'')],
              JObj [(''word'', JStr ''pusa'')], JObj [(''word'', JStr ''ibon'')]])])),
       (''dictionary_ceb_eng.json'', example_dump (JObj
         [(''meta'', JObj [(''lang'', JStr ''ceb''), (''definition_lang'', JStr ''eng'')]),
          (''entries'', JList [JObj [(''word'', JStr ''iro'')]])]))]) \<and>
   expected_aggregate (phrasebooks_batch example_repr) example_phrasebook_files =
     example_phrasebook_aggregate \<and>
   phrasebooks_main example_io example_repr example_dump example_phrasebook_files [] =
     (None,
      [(''phrasebook_tgl_eng.json'', example_dump (JObj
         [(''meta'', JObj [(''lang'', JStr ''tgl''), (''translation_lang'', JStr ''eng'')]),
          (''entries'', JList
             [JObj [(''phrase'', JStr ''oo'')], JObj [(''phrase'', JStr ''hindi'')],
              JObj [(''phrase'', JStr ''hindi'')], JObj [(''phrase'', JStr ''salamat'')]])])),
       (''phrasebook_ceb_eng.json'', example_dump (JObj
         [(''meta'', JObj [(''lang'', JStr ''ceb''), (''translation_lang'', JStr ''eng'')]),
          (''entries'', JList [JObj [(''phrase'', JStr ''oo'')]])]))])"
proof -
  note d = rerun_same_output [of example_io example_repr example_dump example_dictionary_files
      "[]" example_dictionary_aggregate,
      THEN conjunct2, THEN conjunct2, THEN conjunct1, THEN mp, OF example_collect_dictionaries]
  note p = rerun_same_output [of example_io example_repr example_dump example_phrasebook_files
      "[]" _ example_phrasebook_aggregate,
      THEN conjunct2, THEN conjunct2, THEN conjunct2, THEN conjunct2, THEN conjunct2, THEN mp,
      OF example_collect_phrasebooks]
  have wd: "\<forall>(filename, data) \<in> set example_dictionary_aggregate.
      example_io filename (example_dump (group_json data)) = None"
    by (simp add: example_io_def)
  have wp: "\<forall>(filename, data) \<in> set example_phrasebook_aggregate.
      example_io filename (example_dump (group_json data)) = None"
    by (simp add: example_io_def)
  from d [THEN conjunct2, THEN mp, OF wd]
  have "dictionaries_main example_io example_repr example_dump example_dictionary_files [] =
      (None, map (\<lambda>(filename, data). (filename, example_dump (group_json data)))
         example_dictionary_aggregate)"
    unfolding d [THEN conjunct1, symmetric] .
  moreover from p [THEN conjunct2, THEN mp, OF wp]
  have "phrasebooks_main example_io example_repr example_dump example_phrasebook_files [] =
      (None, map (\<lambda>(filename, data). (filename, example_dump (group_json data)))
         example_phrasebook_aggregate)"
    unfolding p [THEN conjunct1, symmetric] .
  ultimately show ?thesis
    using d [THEN conjunct1, symmetric] p [THEN conjunct1, symmetric]
    by (simp add: example_dictionary_aggregate_def example_phrasebook_aggregate_def group_json_def)
qed

end
